theory Spec2Isabelle
  imports Main "HOL-Library.Sublist"
begin

section \<open>JavaScript values\<close>

text \<open>
  The values a parsed JSON body can hold, and \<open>undefined\<close>, which a property read
  returns for a key that is not there. Strings are lists of bytes: the text in UTF-8.
  A number is given by its rendering \<open>String(n)\<close> (\<open>5\<close>, \<open>0.5\<close>, \<open>1e+21\<close>; \<open>0\<close> for both
  zeros), which tells two numbers apart exactly when \<open>===\<close> does: the code tests a
  number for being zero and converts it to a string, and does nothing else with it.
\<close>

datatype jsval =
    JUndefined
  | JNull
  | JBool bool
  | JNum string
  | JStr string
  | JArr "jsval list"
  | JObj "(string \<times> jsval) list"

text \<open>The errors of the model: what JavaScript throws and what the store rejects with.\<close>

datatype js_error =
  TypeError | CastError | ValidationError | DuplicateKey | ConflictingUpdate | ImmutableField

text \<open>\<open>!v\<close> is \<open>\<not> truthy v\<close>.\<close>

fun truthy :: "jsval \<Rightarrow> bool" where
  "truthy JUndefined = False"
| "truthy JNull = False"
| "truthy (JBool b) = b"
| "truthy (JNum n) = (n \<noteq> ''0'')"
| "truthy (JStr s) = (s \<noteq> [])"
| "truthy (JArr xs) = True"
| "truthy (JObj kvs) = True"

text \<open>\<open>typeof v === 'string'\<close>.\<close>

fun is_string :: "jsval \<Rightarrow> bool" where
  "is_string (JStr s) = True"
| "is_string v = False"

text \<open>\<open>key in obj\<close> and \<open>obj[key]\<close> on a parsed JSON object.\<close>

definition js_in :: "string \<Rightarrow> (string \<times> jsval) list \<Rightarrow> bool" where
  "js_in key obj = (key \<in> set (map fst obj))"

definition js_get :: "(string \<times> jsval) list \<Rightarrow> string \<Rightarrow> jsval" where
  "js_get obj key = (case map_of obj key of None \<Rightarrow> JUndefined | Some v \<Rightarrow> v)"

text \<open>The rendering of an integer, for the time of a date.\<close>

fun show_nat :: "nat \<Rightarrow> string" where
  "show_nat n =
     (if n < 10 then [''0123456789'' ! n]
      else show_nat (n div 10) @ [''0123456789'' ! (n mod 10)])"

definition show_int :: "int \<Rightarrow> string" where
  "show_int i = (if i < 0 then CHR ''-'' # show_nat (nat (- i)) else show_nat (nat i))"

fun join_comma :: "string list \<Rightarrow> string" where
  "join_comma [] = []"
| "join_comma [s] = s"
| "join_comma (s # t # ss) = s @ '','' @ join_comma (t # ss)"

text \<open>
  JavaScript's \<open>ToString\<close>: what a template literal and \<open>toString()\<close> produce. An array
  joins its elements with commas, \<open>null\<close> and \<open>undefined\<close> elements as empty strings.
\<close>

fun to_String :: "jsval \<Rightarrow> string" where
  "to_String JUndefined = ''undefined''"
| "to_String JNull = ''null''"
| "to_String (JBool b) = (if b then ''true'' else ''false'')"
| "to_String (JNum n) = n"
| "to_String (JStr s) = s"
| "to_String (JArr xs) =
     join_comma (map (\<lambda>x. if x = JUndefined \<or> x = JNull then [] else to_String x) xs)"
| "to_String (JObj kvs) = ''[object Object]''"

text \<open>
  \<open>String.prototype.trim\<close> drops white space and line terminators at both ends. These
  are their UTF-8 encodings: U+0009 to U+000D, U+0020, U+00A0, U+1680, U+2000 to U+200A,
  U+2028, U+2029, U+202F, U+205F, U+3000 and U+FEFF.
\<close>

definition white_space :: "string list" where
  "white_space =
     [[CHR 0x09], [CHR 0x0A], [CHR 0x0B], [CHR 0x0C], [CHR 0x0D], [CHR 0x20],
      [CHR 0xC2, CHR 0xA0],
      [CHR 0xE1, CHR 0x9A, CHR 0x80],
      [CHR 0xE2, CHR 0x80, CHR 0x80], [CHR 0xE2, CHR 0x80, CHR 0x81],
      [CHR 0xE2, CHR 0x80, CHR 0x82], [CHR 0xE2, CHR 0x80, CHR 0x83],
      [CHR 0xE2, CHR 0x80, CHR 0x84], [CHR 0xE2, CHR 0x80, CHR 0x85],
      [CHR 0xE2, CHR 0x80, CHR 0x86], [CHR 0xE2, CHR 0x80, CHR 0x87],
      [CHR 0xE2, CHR 0x80, CHR 0x88], [CHR 0xE2, CHR 0x80, CHR 0x89],
      [CHR 0xE2, CHR 0x80, CHR 0x8A],
      [CHR 0xE2, CHR 0x80, CHR 0xA8], [CHR 0xE2, CHR 0x80, CHR 0xA9],
      [CHR 0xE2, CHR 0x80, CHR 0xAF],
      [CHR 0xE2, CHR 0x81, CHR 0x9F],
      [CHR 0xE3, CHR 0x80, CHR 0x80],
      [CHR 0xEF, CHR 0xBB, CHR 0xBF]]"

text \<open>\<open>strip ws s\<close> drops from the start of \<open>s\<close> every sequence of \<open>ws\<close>, one after another.\<close>

function strip :: "string list \<Rightarrow> string \<Rightarrow> string" where
  "strip ws s =
     (case find (\<lambda>w. w \<noteq> [] \<and> prefix w s) ws of
        None \<Rightarrow> s
      | Some w \<Rightarrow> strip ws (drop (length w) s))"
  by pat_completeness auto
termination
  by (relation "measure (\<lambda>(ws, s). length s)") (auto simp: find_Some_iff prefix_def)

declare strip.simps [simp del]

definition trim :: "string \<Rightarrow> string" where
  "trim s = rev (strip (map rev white_space) (rev (strip white_space s)))"

section \<open>Documents (models.js)\<close>

text \<open>
  A path of type \<open>String\<close> in a document holds a string, \<open>null\<close>, or nothing.
\<close>

datatype field = Absent | IsNull | Text string

text \<open>A field inside a template literal, and as a value of a response object.\<close>

fun field_String :: "field \<Rightarrow> string" where
  "field_String Absent = ''undefined''"
| "field_String IsNull = ''null''"
| "field_String (Text s) = s"

fun field_value :: "field \<Rightarrow> jsval" where
  "field_value Absent = JUndefined"
| "field_value IsNull = JNull"
| "field_value (Text s) = JStr s"

text \<open>
  \<open>blogPostSchema\<close> (models.js, lines 6 to 14) and \<open>userSchema\<close> (lines 16 to 21).
  \<open>post_id\<close> and \<open>user_id\<close> are the documents' \<open>_id\<close>, \<open>created\<close> is a time in
  milliseconds or \<open>null\<close> (\<open>None\<close>). The version key \<open>__v\<close> is left out: nothing in the
  repository reads it. The user's \<open>firstName\<close> and \<open>lastName\<close> are named \<open>user_firstName\<close>
  and \<open>user_lastName\<close> to keep them apart from the author's.
\<close>

record Author =
  firstName :: field
  lastName :: field

record BlogPost =
  post_id :: string
  author :: Author
  title :: field
  content :: field
  created :: "int option"

record User =
  user_id :: string
  userName :: string
  password :: string
  user_firstName :: field
  user_lastName :: field

text \<open>
  What the handlers take from outside the repository: bcryptjs (\<open>hash\<close> with its
  rounds, \<open>compare\<close>), the identifier the store gives a new document, the clock
  behind \<open>Date.now\<close>, and JavaScript's conversion of a value to a date (a number as a
  time stamp, a string parsed as the implementation parses dates), \<open>None\<close> when the
  date is not valid.
\<close>

record env =
  bcrypt_hash :: "string \<Rightarrow> nat \<Rightarrow> string"
  bcrypt_compare :: "string \<Rightarrow> string \<Rightarrow> bool"
  new_id :: string
  now :: int
  new_Date :: "jsval \<Rightarrow> int option"

text \<open>The virtual \<open>authorName\<close> (models.js, lines 24 to 26).\<close>

definition authorName :: "BlogPost \<Rightarrow> string" where
  "authorName this =
     trim (field_String (firstName (author this)) @ '' '' @ field_String (lastName (author this)))"

text \<open>
  \<open>blogPostSchema.methods.apiRepr\<close> (lines 28 to 36). The date \<open>created\<close> is given as
  its time.
\<close>

definition BlogPost_apiRepr :: "BlogPost \<Rightarrow> jsval" where
  "BlogPost_apiRepr this =
     JObj [(''id'', JStr (post_id this)),
           (''author'', JStr (authorName this)),
           (''content'', field_value (content this)),
           (''title'', field_value (title this)),
           (''created'',
              (case created this of None \<Rightarrow> JNull | Some time \<Rightarrow> JNum (show_int time)))]"

text \<open>\<open>userSchema.methods.apiRepr\<close> (lines 38 to 44).\<close>

definition User_apiRepr :: "User \<Rightarrow> jsval" where
  "User_apiRepr this =
     JObj [(''userName'', JStr (userName this)),
           (''firstName'', field_value (user_firstName this)),
           (''lastName'', field_value (user_lastName this))]"

text \<open>The function assigned at lines 46 to 48, and the static of lines 50 to 52.\<close>

definition validatePassword :: "env \<Rightarrow> User \<Rightarrow> string \<Rightarrow> bool" where
  "validatePassword e this pw = bcrypt_compare e pw (password this)"

definition hashPassword :: "env \<Rightarrow> string \<Rightarrow> string" where
  "hashPassword e pw = bcrypt_hash e pw 10"

text \<open>
  Where the functions of the user schema are stored. A document of the model gets the
  entries of \<open>userSchema.methods\<close>. Line 38 assigns \<open>apiRepr\<close> there. Line 46 assigns
  \<open>validatePassword\<close> as a property of \<open>userSchema.method\<close>, the schema's function for
  registering a method, which no document reads.
\<close>

datatype user_function = apiRepr_function | validatePassword_function

definition userSchema_methods :: "(string \<times> user_function) list" where
  "userSchema_methods = [(''apiRepr'', apiRepr_function)]"

definition userSchema_method :: "(string \<times> user_function) list" where
  "userSchema_method = [(''validatePassword'', validatePassword_function)]"

text \<open>
  \<open>user.name(arg)\<close> on a document: calling a property that is not there throws a
  \<open>TypeError\<close>.
\<close>

definition call_user_method :: "env \<Rightarrow> User \<Rightarrow> string \<Rightarrow> string \<Rightarrow> js_error + jsval" where
  "call_user_method e user name arg =
     (case map_of userSchema_methods name of
        None \<Rightarrow> Inl TypeError
      | Some apiRepr_function \<Rightarrow> Inr (User_apiRepr user)
      | Some validatePassword_function \<Rightarrow> Inr (JBool (validatePassword e user arg)))"

section \<open>The document store\<close>

text \<open>
  The store is the database as the handlers see it through the two models: the
  documents of each collection in insertion order, and the log of the calls made.
\<close>

datatype store_op =
    User_findOne_op string
  | User_count_op string
  | User_create_op
  | BlogPost_find_op
  | BlogPost_findById_op string
  | BlogPost_create_op
  | BlogPost_findByIdAndUpdate_op string
  | BlogPost_findByIdAndRemove_op string

record store =
  users :: "User list"
  posts :: "BlogPost list"
  calls :: "store_op list"

definition called :: "store_op \<Rightarrow> store \<Rightarrow> store" where
  "called op st = st\<lparr>calls := calls st @ [op]\<rparr>"

subsection \<open>Casting to the schema\<close>

text \<open>
  The cast of a value to a \<open>String\<close> path: \<open>null\<close> and \<open>undefined\<close> pass, a string is
  kept, a value with a \<open>toString\<close> of its own (number, boolean, array) is converted, an
  object is read as a document when it has a string \<open>_id\<close> and is refused otherwise.
\<close>

fun cast_String :: "jsval \<Rightarrow> js_error + field" where
  "cast_String JUndefined = Inr Absent"
| "cast_String JNull = Inr IsNull"
| "cast_String (JStr s) = Inr (Text s)"
| "cast_String (JObj kvs) =
     (case js_get kvs ''_id'' of
        JStr i \<Rightarrow> if i = [] then Inl CastError else Inr (Text i)
      | _ \<Rightarrow> Inl CastError)"
| "cast_String v = Inr (Text (to_String v))"

text \<open>\<open>required: true\<close> on a \<open>String\<close> path: the value must be a string that is not empty.\<close>

definition required_String :: "jsval \<Rightarrow> js_error + string" where
  "required_String v =
     (case cast_String v of
        Inl err \<Rightarrow> Inl err
      | Inr (Text s) \<Rightarrow> if s = [] then Inl ValidationError else Inr s
      | Inr _ \<Rightarrow> Inl ValidationError)"

text \<open>
  The nested path \<open>author\<close>: an object sets \<open>author.firstName\<close> and \<open>author.lastName\<close>
  from its keys; a value that is not an object leaves both names unset.
\<close>

definition cast_Author :: "jsval \<Rightarrow> js_error + Author" where
  "cast_Author v =
     (case v of
        JObj kvs \<Rightarrow>
          (case cast_String (js_get kvs ''firstName'') of
             Inl err \<Rightarrow> Inl err
           | Inr f \<Rightarrow>
               (case cast_String (js_get kvs ''lastName'') of
                  Inl err \<Rightarrow> Inl err
                | Inr l \<Rightarrow> Inr \<lparr>firstName = f, lastName = l\<rparr>))
      | _ \<Rightarrow> Inr \<lparr>firstName = Absent, lastName = Absent\<rparr>)"

text \<open>
  The cast of a value to a \<open>Date\<close> path: \<open>null\<close>, \<open>undefined\<close> and the empty string give
  \<open>null\<close>, a boolean is refused, any other value is converted and refused when the date
  is not valid.
\<close>

definition cast_Date :: "env \<Rightarrow> jsval \<Rightarrow> js_error + int option" where
  "cast_Date e v =
     (if v = JUndefined \<or> v = JNull \<or> v = JStr [] then Inr None
      else
        (case v of
           JBool b \<Rightarrow> Inl CastError
         | _ \<Rightarrow> (case new_Date e v of None \<Rightarrow> Inl CastError | Some time \<Rightarrow> Inr (Some time))))"

text \<open>
  The cast of an identifier to an \<open>ObjectId\<close>, written as its 24 hexadecimal digits in
  lower case: 24 hexadecimal digits are taken as they are, 12 ASCII characters as
  the 12 bytes, anything else is refused.
\<close>

definition is_hex :: "char \<Rightarrow> bool" where
  "is_hex c = (c \<in> set ''0123456789abcdefABCDEF'')"

definition lower_hex :: "char \<Rightarrow> char" where
  "lower_hex c =
     (if c = CHR ''A'' then CHR ''a'' else if c = CHR ''B'' then CHR ''b''
      else if c = CHR ''C'' then CHR ''c'' else if c = CHR ''D'' then CHR ''d''
      else if c = CHR ''E'' then CHR ''e'' else if c = CHR ''F'' then CHR ''f'' else c)"

definition hex_byte :: "char \<Rightarrow> string" where
  "hex_byte c =
     [''0123456789abcdef'' ! ((of_char c :: nat) div 16),
      ''0123456789abcdef'' ! ((of_char c :: nat) mod 16)]"

definition cast_ObjectId :: "string \<Rightarrow> js_error + string" where
  "cast_ObjectId s =
     (if length s = 24 \<and> list_all is_hex s then Inr (map lower_hex s)
      else if length s = 12 \<and> list_all (\<lambda>c. of_char c < (128::nat)) s then
        Inr (concat (map hex_byte s))
      else Inl CastError)"

subsection \<open>The model \<open>User\<close>\<close>

definition User_findOne :: "store \<Rightarrow> string \<Rightarrow> User option \<times> store" where
  "User_findOne st name =
     (find (\<lambda>u. userName u = name) (users st), called (User_findOne_op name) st)"

definition User_count :: "store \<Rightarrow> string \<Rightarrow> nat \<times> store" where
  "User_count st name =
     (length (filter (\<lambda>u. userName u = name) (users st)), called (User_count_op name) st)"

text \<open>
  \<open>User.create\<close>: the document is cast and validated against \<open>userSchema\<close> (both
  \<open>userName\<close> and \<open>password\<close> required, \<open>userName\<close> unique) and inserted, or the call
  is rejected and nothing is inserted.
\<close>

definition User_create ::
  "env \<Rightarrow> store \<Rightarrow> jsval \<Rightarrow> jsval \<Rightarrow> jsval \<Rightarrow> jsval \<Rightarrow> (js_error + User) \<times> store" where
  "User_create e st uname pw fname lname =
     (let st' = called User_create_op st in
      case required_String uname of
        Inl err \<Rightarrow> (Inl err, st')
      | Inr u \<Rightarrow>
     (case required_String pw of
        Inl err \<Rightarrow> (Inl err, st')
      | Inr p \<Rightarrow>
     (case cast_String fname of
        Inl err \<Rightarrow> (Inl err, st')
      | Inr f \<Rightarrow>
     (case cast_String lname of
        Inl err \<Rightarrow> (Inl err, st')
      | Inr l \<Rightarrow>
          if u \<in> set (map userName (users st)) then (Inl DuplicateKey, st')
          else
            (let doc = \<lparr>user_id = new_id e, userName = u, password = p,
                        user_firstName = f, user_lastName = l\<rparr>
             in (Inr doc, st'\<lparr>users := users st @ [doc]\<rparr>))))))"

subsection \<open>The model \<open>BlogPost\<close>\<close>

definition BlogPost_find :: "store \<Rightarrow> BlogPost list \<times> store" where
  "BlogPost_find st = (posts st, called BlogPost_find_op st)"

definition BlogPost_findById :: "store \<Rightarrow> string \<Rightarrow> (js_error + BlogPost option) \<times> store" where
  "BlogPost_findById st rid =
     (let st' = called (BlogPost_findById_op rid) st in
      case cast_ObjectId rid of
        Inl err \<Rightarrow> (Inl err, st')
      | Inr oid \<Rightarrow> (Inr (find (\<lambda>p. post_id p = oid) (posts st)), st'))"

text \<open>
  \<open>BlogPost.create\<close>: \<open>title\<close> is required, \<open>created\<close> defaults to the time of the
  call.
\<close>

definition BlogPost_create ::
  "env \<Rightarrow> store \<Rightarrow> jsval \<Rightarrow> jsval \<Rightarrow> jsval \<Rightarrow> (js_error + BlogPost) \<times> store" where
  "BlogPost_create e st title_v content_v author_v =
     (let st' = called BlogPost_create_op st in
      case required_String title_v of
        Inl err \<Rightarrow> (Inl err, st')
      | Inr t \<Rightarrow>
     (case cast_String content_v of
        Inl err \<Rightarrow> (Inl err, st')
      | Inr c \<Rightarrow>
     (case cast_Author author_v of
        Inl err \<Rightarrow> (Inl err, st')
      | Inr a \<Rightarrow>
          (let doc = \<lparr>post_id = new_id e, author = a, title = Text t, content = c,
                      created = Some (now e)\<rparr>
           in (Inr doc, st'\<lparr>posts := posts st @ [doc]\<rparr>)))))"

text \<open>
  \<open>findByIdAndUpdate(id, {$set: updated}, {new: true})\<close>. The values of \<open>updated\<close> are
  cast to the schema, key by key (validators do not run on an update): \<open>title\<close>,
  \<open>content\<close>, the nested \<open>author\<close> and its paths \<open>author.firstName\<close> and \<open>author.lastName\<close>,
  \<open>created\<close> and \<open>_id\<close>. Any other key addresses no field of the model: it changes
  none. The database refuses an update that sets both \<open>author\<close> and a path below it,
  and one that would change \<open>_id\<close>. Otherwise the first document with the identifier
  is changed and returned as it is afterwards; \<open>null\<close> is returned when there is none.
\<close>

datatype setter =
    Set_title field
  | Set_content field
  | Set_author Author
  | Set_firstName field
  | Set_lastName field
  | Set_created "int option"
  | Set_id string

definition cast_setter :: "env \<Rightarrow> string \<Rightarrow> jsval \<Rightarrow> js_error + setter option" where
  "cast_setter e key v =
     (if key = ''title'' then
        (case cast_String v of Inl err \<Rightarrow> Inl err | Inr f \<Rightarrow> Inr (Some (Set_title f)))
      else if key = ''content'' then
        (case cast_String v of Inl err \<Rightarrow> Inl err | Inr f \<Rightarrow> Inr (Some (Set_content f)))
      else if key = ''author'' then
        (case cast_Author v of Inl err \<Rightarrow> Inl err | Inr a \<Rightarrow> Inr (Some (Set_author a)))
      else if key = ''author.firstName'' then
        (case cast_String v of Inl err \<Rightarrow> Inl err | Inr f \<Rightarrow> Inr (Some (Set_firstName f)))
      else if key = ''author.lastName'' then
        (case cast_String v of Inl err \<Rightarrow> Inl err | Inr f \<Rightarrow> Inr (Some (Set_lastName f)))
      else if key = ''created'' then
        (case cast_Date e v of Inl err \<Rightarrow> Inl err | Inr d \<Rightarrow> Inr (Some (Set_created d)))
      else if key = ''_id'' then
        (case cast_ObjectId (to_String v) of
           Inl err \<Rightarrow> Inl err
         | Inr oid \<Rightarrow> Inr (Some (Set_id oid)))
      else Inr None)"

fun cast_update :: "env \<Rightarrow> (string \<times> jsval) list \<Rightarrow> js_error + setter list" where
  "cast_update e [] = Inr []"
| "cast_update e ((key, v) # rest) =
     (case cast_setter e key v of
        Inl err \<Rightarrow> Inl err
      | Inr s \<Rightarrow>
          (case cast_update e rest of
             Inl err \<Rightarrow> Inl err
           | Inr sets \<Rightarrow> Inr (case s of None \<Rightarrow> sets | Some set_field \<Rightarrow> set_field # sets)))"

definition conflicting :: "(string \<times> jsval) list \<Rightarrow> bool" where
  "conflicting updated =
     (js_in ''author'' updated
      \<and> (js_in ''author.firstName'' updated \<or> js_in ''author.lastName'' updated))"

fun apply_setter :: "setter \<Rightarrow> BlogPost \<Rightarrow> js_error + BlogPost" where
  "apply_setter (Set_title f) p = Inr (p\<lparr>title := f\<rparr>)"
| "apply_setter (Set_content f) p = Inr (p\<lparr>content := f\<rparr>)"
| "apply_setter (Set_author a) p = Inr (p\<lparr>author := a\<rparr>)"
| "apply_setter (Set_firstName f) p = Inr (p\<lparr>author := (author p)\<lparr>firstName := f\<rparr>\<rparr>)"
| "apply_setter (Set_lastName f) p = Inr (p\<lparr>author := (author p)\<lparr>lastName := f\<rparr>\<rparr>)"
| "apply_setter (Set_created d) p = Inr (p\<lparr>created := d\<rparr>)"
| "apply_setter (Set_id oid) p = (if oid = post_id p then Inr p else Inl ImmutableField)"

fun apply_setters :: "setter list \<Rightarrow> BlogPost \<Rightarrow> js_error + BlogPost" where
  "apply_setters [] p = Inr p"
| "apply_setters (s # sets) p =
     (case apply_setter s p of Inl err \<Rightarrow> Inl err | Inr p' \<Rightarrow> apply_setters sets p')"

fun replace_first :: "string \<Rightarrow> BlogPost \<Rightarrow> BlogPost list \<Rightarrow> BlogPost list" where
  "replace_first oid p' [] = []"
| "replace_first oid p' (p # ps) =
     (if post_id p = oid then p' # ps else p # replace_first oid p' ps)"

definition BlogPost_findByIdAndUpdate ::
  "env \<Rightarrow> store \<Rightarrow> string \<Rightarrow> (string \<times> jsval) list
    \<Rightarrow> (js_error + BlogPost option) \<times> store" where
  "BlogPost_findByIdAndUpdate e st rid updated =
     (let st' = called (BlogPost_findByIdAndUpdate_op rid) st in
      case cast_ObjectId rid of
        Inl err \<Rightarrow> (Inl err, st')
      | Inr oid \<Rightarrow>
     (case cast_update e updated of
        Inl err \<Rightarrow> (Inl err, st')
      | Inr sets \<Rightarrow>
          if conflicting updated then (Inl ConflictingUpdate, st')
          else
            (case find (\<lambda>p. post_id p = oid) (posts st) of
               None \<Rightarrow> (Inr None, st')
             | Some p \<Rightarrow>
                 (case apply_setters sets p of
                    Inl err \<Rightarrow> (Inl err, st')
                  | Inr p' \<Rightarrow>
                      (Inr (Some p'), st'\<lparr>posts := replace_first oid p' (posts st)\<rparr>)))))"

fun remove_first :: "string \<Rightarrow> BlogPost list \<Rightarrow> BlogPost list" where
  "remove_first oid [] = []"
| "remove_first oid (p # ps) = (if post_id p = oid then ps else p # remove_first oid ps)"

definition BlogPost_findByIdAndRemove ::
  "store \<Rightarrow> string \<Rightarrow> (js_error + BlogPost option) \<times> store" where
  "BlogPost_findByIdAndRemove st rid =
     (let st' = called (BlogPost_findByIdAndRemove_op rid) st in
      case cast_ObjectId rid of
        Inl err \<Rightarrow> (Inl err, st')
      | Inr oid \<Rightarrow>
          (Inr (find (\<lambda>p. post_id p = oid) (posts st)),
           st'\<lparr>posts := remove_first oid (posts st)\<rparr>))"

section \<open>Requests and responses\<close>

text \<open>
  A request as the handlers read it: the credentials of a Basic \<open>Authorization\<close>
  header if there is one, \<open>req.params.id\<close>, and \<open>req.body\<close>, which is the parsed JSON
  object or \<open>undefined\<close> (\<open>None\<close>). A body that is a JSON array is not modelled.
\<close>

datatype credentials = NoHeader | Basic string string

record request =
  authorization :: credentials
  params_id :: string
  body :: "(string \<times> jsval) list option"

record response =
  status :: nat
  payload :: jsval

text \<open>
  \<open>res.status(code).json(v)\<close> and \<open>res.status(code).send(v)\<close>. The response object is
  \<open>None\<close> until a response is sent. A response is sent once: a later call throws
  (the headers are sent already) and the client keeps the first.
\<close>

definition send :: "nat \<Rightarrow> jsval \<Rightarrow> response option \<Rightarrow> response option" where
  "send code v res =
     (case res of None \<Rightarrow> Some \<lparr>status = code, payload = v\<rparr> | Some sent \<Rightarrow> Some sent)"

definition message :: "string \<Rightarrow> jsval" where
  "message text = JObj [(''message'', JStr text)]"

definition error :: "string \<Rightarrow> jsval" where
  "error text = JObj [(''error'', JStr text)]"

text \<open>
  What express answers when a handler throws before any promise is made, or when the
  authentication passes an error on: status 500. The payload stands for the error page.
\<close>

definition express_error :: "response option \<Rightarrow> response option" where
  "express_error res = send 500 (JStr ''Internal Server Error'') res"

section \<open>The authentication gate (server.js, lines 24 to 50)\<close>

text \<open>The three ways the strategy calls back: \<open>callback(null, false, ...)\<close>,
  \<open>callback(null, user)\<close> and \<open>callback(err)\<close>.\<close>

datatype verdict = Fail | Success User | Error js_error

text \<open>
  \<open>basicStrategy\<close> returns its first call of \<open>callback\<close> and the calls after it.
  Without a user, line 32 calls back and returns what \<open>callback\<close> returned, which is
  \<open>undefined\<close>; the second \<open>then\<close> gets it as \<open>valid\<close> and calls back again at line 38.
  With a user, line 34 calls \<open>user.validatePassword\<close>; an error thrown there skips the
  second \<open>then\<close> and reaches \<open>catch\<close> (line 45).
\<close>

definition basicStrategy ::
  "env \<Rightarrow> store \<Rightarrow> string \<Rightarrow> string \<Rightarrow> (verdict \<times> verdict list) \<times> store" where
  "basicStrategy e st username pw =
     (let (found, st') = User_findOne st username in
      case found of
        None \<Rightarrow> ((Fail, [Fail]), st')
      | Some user \<Rightarrow>
          (case call_user_method e user ''validatePassword'' pw of
             Inl err \<Rightarrow> ((Error err, []), st')
           | Inr valid \<Rightarrow>
               if \<not> truthy valid then ((Fail, []), st') else ((Success user, []), st')))"

text \<open>
  \<open>passport.authenticate('basic', {session: false})\<close>: a request without the header, or
  with an empty user name or password, fails before the strategy's function runs. The
  first call of \<open>callback\<close> decides: a failure is answered with 401, an error goes to
  express (500), a success lets the handler run with the user.
\<close>

definition unauthorized :: response where
  "unauthorized = \<lparr>status = 401, payload = JStr ''Unauthorized''\<rparr>"

definition passport_authenticate ::
  "env \<Rightarrow> store \<Rightarrow> request \<Rightarrow> (response + User) \<times> store" where
  "passport_authenticate e st req =
     (case authorization req of
        NoHeader \<Rightarrow> (Inl unauthorized, st)
      | Basic userid pw \<Rightarrow>
          if userid = [] \<or> pw = [] then (Inl unauthorized, st)
          else
            (case basicStrategy e st userid pw of
               ((Fail, later), st') \<Rightarrow> (Inl unauthorized, st')
             | ((Error err, later), st') \<Rightarrow>
                 (Inl \<lparr>status = 500, payload = JStr ''Internal Server Error''\<rparr>, st')
             | ((Success user, later), st') \<Rightarrow> (Inr user, st')))"

section \<open>The handlers (server.js)\<close>

text \<open>
  Each handler takes the store, the request and the response object, and returns the
  response object and the store as they are when the handler and its promises are done.
\<close>

subsection \<open>GET /posts (lines 52 to 63)\<close>

definition get_posts :: "store \<Rightarrow> request \<Rightarrow> response option \<Rightarrow> response option \<times> store" where
  "get_posts st req res =
     (let (found, st') = BlogPost_find st
      in (send 200 (JArr (map BlogPost_apiRepr found)) res, st'))"

subsection \<open>GET /posts/:id (lines 65 to 74)\<close>

text \<open>
  When no post has the identifier, \<open>findById\<close> resolves to \<open>null\<close> and
  \<open>post.apiRepr()\<close> throws inside \<open>then\<close>; \<open>catch\<close> answers as for a rejected query.
\<close>

definition get_posts_id :: "store \<Rightarrow> request \<Rightarrow> response option \<Rightarrow> response option \<times> store" where
  "get_posts_id st req res =
     (case BlogPost_findById st (params_id req) of
        (Inl err, st') \<Rightarrow> (send 500 (error ''something went horribly awry'') res, st')
      | (Inr None, st') \<Rightarrow> (send 500 (error ''something went horribly awry'') res, st')
      | (Inr (Some post), st') \<Rightarrow> (send 200 (BlogPost_apiRepr post) res, st'))"

subsection \<open>POST /posts (lines 76 to 98)\<close>

definition requiredFields :: "string list" where
  "requiredFields = [''title'', ''content'']"

text \<open>The loop of lines 78 to 85: the first required field that is not in the body.\<close>

fun first_missing :: "string list \<Rightarrow> (string \<times> jsval) list \<Rightarrow> string option" where
  "first_missing [] b = None"
| "first_missing (field # rest) b =
     (if \<not> js_in field b then Some field else first_missing rest b)"

definition missing_message :: "string \<Rightarrow> string" where
  "missing_message field = ''Missing '' @ [CHR 0x60] @ field @ [CHR 0x60] @ '' in request body''"

definition post_posts ::
  "env \<Rightarrow> store \<Rightarrow> request \<Rightarrow> response option \<Rightarrow> response option \<times> store" where
  "post_posts e st req res =
     (case body req of
        None \<Rightarrow> (express_error res, st)
      | Some b \<Rightarrow>
          (case first_missing requiredFields b of
             Some field \<Rightarrow> (send 400 (JStr (missing_message field)) res, st)
           | None \<Rightarrow>
               (case BlogPost_create e st (js_get b ''title'') (js_get b ''content'')
                       (js_get b ''author'') of
                  (Inl err, st') \<Rightarrow> (send 500 (error ''Something went wrong'') res, st')
                | (Inr blogPost, st') \<Rightarrow> (send 201 (BlogPost_apiRepr blogPost) res, st'))))"

subsection \<open>POST /users (lines 100 to 160)\<close>

text \<open>
  The response object as a value: line 141 returns it from the first \<open>then\<close>, and the
  second \<open>then\<close> passes it to \<open>User.create\<close> as the password. It is an object with no
  \<open>_id\<close> and no \<open>toString\<close> of its own.
\<close>

definition res_object :: jsval where
  "res_object = JObj []"

text \<open>
  Lines 135 to 159. When the count is positive, line 141 answers 400 and the chain goes
  on: \<open>hash\<close> is then the response object. \<open>catch\<close> answers 500 when nothing was sent.
\<close>

definition register ::
  "env \<Rightarrow> store \<Rightarrow> string \<Rightarrow> string \<Rightarrow> jsval \<Rightarrow> jsval \<Rightarrow> response option
    \<Rightarrow> response option \<times> store" where
  "register e st userName' password' firstName' lastName' res =
     (let (count, st1) = User_count st userName';
          (res1, hash) =
            (if count > 0 then (send 400 (message ''This username already exists'') res, res_object)
             else (res, JStr (hashPassword e password')))
      in case User_create e st1 (JStr userName') hash firstName' lastName' of
           (Inl err, st2) \<Rightarrow> (send 500 (message ''This is a catch error'') res1, st2)
         | (Inr newUser, st2) \<Rightarrow> (send 201 (User_apiRepr newUser) res1, st2))"

definition post_users ::
  "env \<Rightarrow> store \<Rightarrow> request \<Rightarrow> response option \<Rightarrow> response option \<times> store" where
  "post_users e st req res =
     (case body req of
        None \<Rightarrow> (send 400 (message ''Empty request body'') res, st)
      | Some b \<Rightarrow>
          if \<not> js_in ''userName'' b then (send 422 (message ''Missing username'') res, st)
          else
            (let userName_v = js_get b ''userName'';
                 password_v = js_get b ''password'';
                 firstName_v = js_get b ''firstName'';
                 lastName_v = js_get b ''lastName''
             in
               if \<not> is_string userName_v then
                 (send 422 (message ''Username must be a string'') res, st)
               else
                 (let userName' = trim (to_String userName_v) in
                  if userName' = [] then
                    (send 422 (message ''Username is nonexistent'') res, st)
                  else if \<not> truthy password_v then
                    (send 422 (message ''Missing password'') res, st)
                  else if \<not> is_string password_v then
                    (send 422 (message ''password must be a string'') res, st)
                  else
                    (let password' = trim (to_String password_v) in
                     if password' = [] then
                       (send 422 (message ''password is nonexistent'') res, st)
                     else register e st userName' password' firstName_v lastName_v res))))"

subsection \<open>DELETE /posts/:id (lines 163 to 174)\<close>

definition delete_posts_id ::
  "store \<Rightarrow> request \<Rightarrow> response option \<Rightarrow> response option \<times> store" where
  "delete_posts_id st req res =
     (case BlogPost_findByIdAndRemove st (params_id req) of
        (Inl err, st') \<Rightarrow> (send 500 (error ''something went terribly wrong'') res, st')
      | (Inr removed, st') \<Rightarrow> (send 204 (message ''success'') res, st'))"

subsection \<open>PUT /posts/:id (lines 177 to 197)\<close>

definition updateableFields :: "string list" where
  "updateableFields = [''title'', ''content'', ''author'']"

text \<open>The \<open>forEach\<close> of lines 186 to 190.\<close>

definition build_updated :: "(string \<times> jsval) list \<Rightarrow> (string \<times> jsval) list" where
  "build_updated b =
     fold (\<lambda>field updated. if js_in field b then updated @ [(field, js_get b field)] else updated)
       updateableFields []"

text \<open>The test of line 178: both identifiers truthy and strictly equal.\<close>

definition ids_match :: "string \<Rightarrow> (string \<times> jsval) list \<Rightarrow> bool" where
  "ids_match pid b = (pid \<noteq> [] \<and> truthy (js_get b ''id'') \<and> JStr pid = js_get b ''id'')"

text \<open>
  The \<open>if\<close> of line 178 answers 400 and does not return: the update of lines 184 to 196
  runs in either case. A \<open>null\<close> result makes \<open>updatedPost.apiRepr()\<close> throw inside
  \<open>then\<close>, which \<open>catch\<close> answers. Without a body, reading \<open>req.body.id\<close> (or, when
  the path identifier is empty, \<open>field in req.body\<close> after the 400) throws.
\<close>

definition put_posts_id ::
  "env \<Rightarrow> store \<Rightarrow> request \<Rightarrow> response option \<Rightarrow> response option \<times> store" where
  "put_posts_id e st req res =
     (case body req of
        None \<Rightarrow>
          (if params_id req = [] then
             send 400 (error ''Request path id and request body id values must match'') res
           else express_error res, st)
      | Some b \<Rightarrow>
          (let res1 =
                 (if \<not> ids_match (params_id req) b then
                    send 400 (error ''Request path id and request body id values must match'') res
                  else res);
               updated = build_updated b
           in case BlogPost_findByIdAndUpdate e st (params_id req) updated of
                (Inl err, st') \<Rightarrow> (send 500 (message ''Something went wrong'') res1, st')
              | (Inr None, st') \<Rightarrow> (send 500 (message ''Something went wrong'') res1, st')
              | (Inr (Some updatedPost), st') \<Rightarrow>
                  (send 201 (BlogPost_apiRepr updatedPost) res1, st')))"

subsection \<open>DELETE /:id (lines 200 to 208)\<close>

text \<open>The handler reads \<open>BlogPosts\<close>, which is not defined: it throws at once.\<close>

definition delete_id :: "store \<Rightarrow> request \<Rightarrow> response option \<Rightarrow> response option \<times> store" where
  "delete_id st req res = (express_error res, st)"

subsection \<open>The routes\<close>

datatype endpoint =
    GET_posts
  | GET_posts_id
  | POST_posts
  | POST_users
  | DELETE_posts_id
  | PUT_posts_id
  | DELETE_id

definition handler ::
  "env \<Rightarrow> endpoint \<Rightarrow> store \<Rightarrow> request \<Rightarrow> response option \<Rightarrow> response option \<times> store" where
  "handler e ep st req res =
     (case ep of
        GET_posts \<Rightarrow> get_posts st req res
      | GET_posts_id \<Rightarrow> get_posts_id st req res
      | POST_posts \<Rightarrow> post_posts e st req res
      | POST_users \<Rightarrow> post_users e st req res
      | DELETE_posts_id \<Rightarrow> delete_posts_id st req res
      | PUT_posts_id \<Rightarrow> put_posts_id e st req res
      | DELETE_id \<Rightarrow> delete_id st req res)"

text \<open>
  A route with \<open>passport.authenticate\<close> before its handler: the handler runs only when
  the authentication lets the request through.
\<close>

definition authenticated_route ::
  "env \<Rightarrow> (store \<Rightarrow> request \<Rightarrow> response option \<Rightarrow> response option \<times> store)
    \<Rightarrow> store \<Rightarrow> request \<Rightarrow> response option \<times> store" where
  "authenticated_route e h st req =
     (case passport_authenticate e st req of
        (Inl rejected, st') \<Rightarrow> (Some rejected, st')
      | (Inr user, st') \<Rightarrow> h st' req None)"

text \<open>Every route but \<open>POST /users\<close> has \<open>passport.authenticate\<close> before its handler.\<close>

definition requires_authentication :: "endpoint \<Rightarrow> bool" where
  "requires_authentication ep = (ep \<noteq> POST_users)"

text \<open>A field of a body that may not be there.\<close>

definition body_field :: "(string \<times> jsval) list option \<Rightarrow> string \<Rightarrow> jsval" where
  "body_field b key = (case b of None \<Rightarrow> JUndefined | Some obj \<Rightarrow> js_get obj key)"

text \<open>
  \<open>app.use(bodyParser.json())\<close> (line 20) runs before every route: it leaves the parsed
  object in \<open>req.body\<close>, and the empty object when the request has no body.
\<close>

definition bodyParser_json :: "request \<Rightarrow> request" where
  "bodyParser_json req = req\<lparr>body := Some (case body req of None \<Rightarrow> [] | Some b \<Rightarrow> b)\<rparr>"

definition serve :: "env \<Rightarrow> store \<Rightarrow> endpoint \<Rightarrow> request \<Rightarrow> response option \<times> store" where
  "serve e st ep req =
     (if requires_authentication ep then
        authenticated_route e (handler e ep) st (bodyParser_json req)
      else handler e ep st (bodyParser_json req) None)"

section \<open>The validation order of the registration, as the specification lists it\<close>




section \<open>Example data\<close>

text \<open>
  A stand-in for bcryptjs whose output, like bcrypt's, has no white space at its ends
  and is longer than its input; a date conversion that knows the time stamp 0; one
  user; one post.
\<close>

definition example_env :: env where
  "example_env =
     \<lparr>bcrypt_hash = (\<lambda>pw rounds. ''$2a$10$'' @ pw @ ''.''),
      bcrypt_compare = (\<lambda>pw hash. hash = ''$2a$10$'' @ pw @ ''.''),
      new_id = ''5a0000000000000000000002'',
      now = 1500,
      new_Date = (\<lambda>v. if v = JNum ''0'' then Some 0 else None)\<rparr>"

definition alice :: User where
  "alice =
     \<lparr>user_id = ''5a0000000000000000000001'', userName = ''alice'',
      password = ''$2a$10$baseball.'', user_firstName = Text ''Alice'',
      user_lastName = Absent\<rparr>"

definition example_post :: BlogPost where
  "example_post =
     \<lparr>post_id = ''5b0000000000000000000001'',
      author = \<lparr>firstName = Text ''Ann'', lastName = Text ''Lee''\<rparr>,
      title = Text ''old title'', content = Text ''old content'', created = Some 7\<rparr>"

definition example_store :: store where
  "example_store = \<lparr>users = [alice], posts = [example_post], calls = []\<rparr>"

definition request_of :: "credentials \<Rightarrow> string \<Rightarrow> (string \<times> jsval) list \<Rightarrow> request" where
  "request_of auth pid b = \<lparr>authorization = auth, params_id = pid, body = Some b\<rparr>"


definition bob_request :: request where
  "bob_request = request_of NoHeader [] [(''userName'', JStr '' bob ''), (''password'', JStr ''pw123'')]"

definition mismatched_request :: request where
  "mismatched_request =
     request_of NoHeader ''5b0000000000000000000001''
       [(''id'', JStr ''5b0000000000000000000002''), (''title'', JStr ''new title'')]"

definition guarded_request :: request where
  "guarded_request =
     request_of NoHeader ''5b0000000000000000000001''
       [(''id'', JStr ''5b0000000000000000000001''), (''title'', JStr ''new title''),
        (''created'', JNum ''0''), (''_id'', JStr ''5b0000000000000000000002'')]"

definition anonymous_post_request :: request where
  "anonymous_post_request =
     request_of NoHeader [] [(''title'', JStr ''Hello''), (''content'', JNull)]"

definition new_post_request :: request where
  "new_post_request =
     request_of NoHeader []
       [(''title'', JStr ''Hello''), (''content'', JStr ''First post''),
        (''author'', JObj [(''firstName'', JStr ''Ann''), (''lastName'', JStr ''Lee '')])]"

section \<open>White space and \<open>trim\<close>\<close>

lemma strip_none:
  assumes "find (\<lambda>w. w \<noteq> [] \<and> prefix w s) ws = None"
  shows "strip ws s = s"
  using assms by (subst strip.simps) simp

lemma strip_empty: "strip ws [] = []"
  by (rule strip_none) (auto simp: find_None_iff)

lemma strip_keeps:
  assumes "u \<noteq> []" and "\<forall>w\<in>set ws. hd u \<notin> set w"
  shows "\<exists>p'. strip ws (p @ u @ q) = p' @ u @ q"
proof (induction p rule: length_induct)
  case (1 p)
  show ?case
  proof (cases "find (\<lambda>w. w \<noteq> [] \<and> prefix w (p @ u @ q)) ws")
    case None
    then have "strip ws (p @ u @ q) = p @ u @ q"
      by (rule strip_none)
    then show ?thesis by blast
  next
    case (Some w)
    then have w: "w \<in> set ws" "w \<noteq> []" "prefix w (p @ u @ q)"
      by (auto simp: find_Some_iff)
    have "prefix w p"
    proof (rule ccontr)
      assume "\<not> prefix w p"
      with w(3) obtain us where us: "w = p @ us" "us \<noteq> []" "prefix us (u @ q)"
        by (auto simp: prefix_append)
      from us(2,3) assms(1) have "hd us = hd u"
        by (cases us; cases u) auto
      with us(1,2) have "hd u \<in> set w"
        by (cases us) auto
      with assms(2) w(1) show False by blast
    qed
    then obtain p2 where p2: "p = w @ p2"
      by (auto simp: prefix_def)
    with w(2) have "length p2 < length p" by simp
    with "1.IH" obtain p' where "strip ws (p2 @ u @ q) = p' @ u @ q"
      by blast
    moreover have "strip ws (p @ u @ q) = strip ws (p2 @ u @ q)"
      using Some p2 by (subst strip.simps) simp
    ultimately show ?thesis by auto
  qed
qed

lemma trim_keeps:
  assumes "u \<noteq> []"
    and "\<forall>w\<in>set white_space. hd u \<notin> set w" and "\<forall>w\<in>set white_space. last u \<notin> set w"
  shows "\<exists>p' q'. trim (p @ u @ q) = p' @ u @ q'"
proof -
  from strip_keeps [of u white_space p q] assms(1,2) obtain p'
    where p': "strip white_space (p @ u @ q) = p' @ u @ q" by blast
  have "rev u \<noteq> []" and "\<forall>w\<in>set (map rev white_space). hd (rev u) \<notin> set w"
    using assms(1,3) by (simp_all add: hd_rev)
  from strip_keeps [of "rev u" "map rev white_space" "rev q" "rev p'"] this obtain q'
    where q': "strip (map rev white_space) (rev q @ rev u @ rev p') = q' @ rev u @ rev p'"
    by blast
  have "trim (p @ u @ q) = p' @ u @ rev q'"
    by (simp add: trim_def p' q')
  then show ?thesis by blast
qed

lemma prefix_hd: "w \<noteq> [] \<Longrightarrow> prefix w s \<Longrightarrow> hd s \<in> set w"
  by (cases w; cases s) auto

lemma trim_unchanged:
  assumes "s \<noteq> []"
    and "\<forall>w\<in>set white_space. hd s \<notin> set w" and "\<forall>w\<in>set white_space. last s \<notin> set w"
  shows "trim s = s"
proof -
  have "find (\<lambda>w. w \<noteq> [] \<and> prefix w s) white_space = None"
    using assms(2) by (auto simp: find_None_iff dest: prefix_hd)
  then have start: "strip white_space s = s"
    by (rule strip_none)
  have "\<not> (rev w \<noteq> [] \<and> prefix (rev w) (rev s))" if "w \<in> set white_space" for w
  proof
    assume "rev w \<noteq> [] \<and> prefix (rev w) (rev s)"
    then have "hd (rev s) \<in> set (rev w)"
      using prefix_hd by blast
    then have "last s \<in> set w"
      using assms(1) by (simp add: hd_rev)
    with assms(3) that show False by blast
  qed
  then have "find (\<lambda>w. w \<noteq> [] \<and> prefix w (rev s)) (map rev white_space) = None"
    by (auto simp: find_None_iff)
  then have "strip (map rev white_space) (rev s) = rev s"
    by (rule strip_none)
  with start show ?thesis
    by (simp add: trim_def)
qed

lemma trim_empty: "trim [] = []"
  by (simp add: trim_def strip_empty)

lemma undefined_ends:
  "\<forall>w\<in>set white_space. hd ''undefined'' \<notin> set w"
  "\<forall>w\<in>set white_space. last ''undefined'' \<notin> set w"
  by (simp_all add: white_space_def)

lemma trim_contains_undefined:
  "sublist ''undefined'' (trim (p @ ''undefined'' @ q))"
proof -
  from trim_keeps [of "''undefined''" p q] undefined_ends
  obtain p' q' where "trim (p @ ''undefined'' @ q) = p' @ ''undefined'' @ q'"
    by auto
  then show ?thesis by (auto simp: sublist_def)
qed

lemma trim_undefined_undefined: "trim ''undefined undefined'' = ''undefined undefined''"
  by (rule trim_unchanged) (simp_all add: white_space_def)

section \<open>Reading the body\<close>

lemma is_string_iff: "is_string v \<longleftrightarrow> (\<exists>s. v = JStr s)"
  by (cases v) simp_all

lemma js_get_in: "js_get b key = JStr s \<Longrightarrow> js_in key b"
  by (auto simp: js_get_def js_in_def split: option.splits dest: map_of_SomeD intro: rev_image_eqI)

section \<open>The authentication gate\<close>

lemma validatePassword_not_a_method: "map_of userSchema_methods ''validatePassword'' = None"
  by (simp add: userSchema_methods_def)

lemma call_validatePassword: "call_user_method e user ''validatePassword'' pw = Inl TypeError"
  by (simp add: call_user_method_def validatePassword_not_a_method)

lemma basicStrategy_stored_user:
  assumes "find (\<lambda>u. userName u = username) (users st) = Some user"
  shows "basicStrategy e st username pw =
           ((Error TypeError, []), called (User_findOne_op username) st)"
  using assms by (simp add: basicStrategy_def User_findOne_def call_validatePassword)

lemma basicStrategy_unknown_user:
  assumes "find (\<lambda>u. userName u = username) (users st) = None"
  shows "basicStrategy e st username pw =
           ((Fail, [Fail]), called (User_findOne_op username) st)"
  using assms by (simp add: basicStrategy_def User_findOne_def)

lemma authenticate_no_header:
  "authorization req = NoHeader \<Longrightarrow> passport_authenticate e st req = (Inl unauthorized, st)"
  by (simp add: passport_authenticate_def)

lemma authenticate_unknown_user:
  assumes "authorization req = Basic username pw"
    and "find (\<lambda>u. userName u = username) (users st) = None"
  shows "\<exists>st'. passport_authenticate e st req = (Inl unauthorized, st')"
  using assms by (simp add: passport_authenticate_def basicStrategy_unknown_user)

lemma authenticate_stored_user:
  assumes "authorization req = Basic username pw"
    and "find (\<lambda>u. userName u = username) (users st) = Some user"
  shows "passport_authenticate e st req =
           (if username = [] \<or> pw = [] then (Inl unauthorized, st)
            else (Inl \<lparr>status = 500, payload = JStr ''Internal Server Error''\<rparr>,
                  called (User_findOne_op username) st))"
  using assms by (simp add: passport_authenticate_def basicStrategy_stored_user)

lemma find_alice: "find (\<lambda>u. userName u = ''alice'') (users example_store) = Some alice"
  by (simp add: example_store_def alice_def)

text \<open>
  C1. What the gate answers on every route that requires authentication: 401 without
  an \<open>Authorization\<close> header; 401 when the user name matches no stored user; and, when
  the user name matches a stored user, not 401 but 500, whatever the password, since
  verifying the password throws. The claim's 401 for a wrong password of a stored
  user is not what the code answers.
\<close>

theorem gate_responses:
  assumes "requires_authentication ep"
  shows "(authorization req = NoHeader \<longrightarrow>
            (\<exists>st'. serve e st ep req = (Some unauthorized, st')))
       \<and> (\<forall>username pw. authorization req = Basic username pw
              \<and> find (\<lambda>u. userName u = username) (users st) = None \<longrightarrow>
            (\<exists>st'. serve e st ep req = (Some unauthorized, st')))
       \<and> (\<forall>username pw user. authorization req = Basic username pw
              \<and> username \<noteq> [] \<and> pw \<noteq> []
              \<and> find (\<lambda>u. userName u = username) (users st) = Some user \<longrightarrow>
            (\<exists>st'. serve e st ep req =
               (Some \<lparr>status = 500, payload = JStr ''Internal Server Error''\<rparr>, st')))"
proof -
  let ?req = "bodyParser_json req"
  have auth: "authorization ?req = authorization req"
    by (simp add: bodyParser_json_def)
  have route: "serve e st ep req = authenticated_route e (handler e ep) st ?req"
    using assms by (simp add: serve_def)
  show ?thesis
  proof (intro conjI allI impI)
    assume "authorization req = NoHeader"
    then show "\<exists>st'. serve e st ep req = (Some unauthorized, st')"
      using auth by (simp add: route authenticated_route_def authenticate_no_header)
  next
    fix username pw
    assume "authorization req = Basic username pw
      \<and> find (\<lambda>u. userName u = username) (users st) = None"
    then obtain st' where "passport_authenticate e st ?req = (Inl unauthorized, st')"
      using authenticate_unknown_user [of ?req username pw st e] auth by auto
    then show "\<exists>st'. serve e st ep req = (Some unauthorized, st')"
      by (simp add: route authenticated_route_def)
  next
    fix username pw user
    assume "authorization req = Basic username pw \<and> username \<noteq> [] \<and> pw \<noteq> []
      \<and> find (\<lambda>u. userName u = username) (users st) = Some user"
    then have "passport_authenticate e st ?req =
        (Inl \<lparr>status = 500, payload = JStr ''Internal Server Error''\<rparr>,
         called (User_findOne_op username) st)"
      using authenticate_stored_user [of ?req username pw st user e] auth by simp
    then show "\<exists>st'. serve e st ep req =
        (Some \<lparr>status = 500, payload = JStr ''Internal Server Error''\<rparr>, st')"
      by (simp add: route authenticated_route_def)
  qed
qed

theorem gate_responses_witness:
  "requires_authentication GET_posts
   \<and> authorization (request_of (Basic ''alice'' ''open sesame'') [] []) = Basic ''alice'' ''open sesame''
   \<and> find (\<lambda>u. userName u = ''alice'') (users example_store) = Some alice
   \<and> \<not> bcrypt_compare example_env ''open sesame'' (password alice)
   \<and> fst (serve example_env example_store GET_posts (request_of (Basic ''alice'' ''open sesame'') [] []))
       = Some \<lparr>status = 500, payload = JStr ''Internal Server Error''\<rparr>"
proof -
  have ra: "requires_authentication GET_posts"
    by (simp add: requires_authentication_def)
  have au: "authorization (request_of (Basic ''alice'' ''open sesame'') [] []) = Basic ''alice'' ''open sesame''"
    by (simp add: request_of_def)
  have wrong: "\<not> bcrypt_compare example_env ''open sesame'' (password alice)"
    by (simp add: example_env_def alice_def)
  from gate_responses [OF ra, of "request_of (Basic ''alice'' ''open sesame'') [] []" example_env example_store]
    au find_alice
  have "\<exists>st'. serve example_env example_store GET_posts (request_of (Basic ''alice'' ''open sesame'') [] [])
             = (Some \<lparr>status = 500, payload = JStr ''Internal Server Error''\<rparr>, st')"
    by simp
  then show ?thesis using ra au find_alice wrong by auto
qed

text \<open>
  C2. When the Basic user name resolves to a stored user, the gate never reaches a
  success, whether the password is right or not: \<open>validatePassword\<close> is not a method of
  the document, so the call throws a \<open>TypeError\<close> and the strategy calls back with that
  error instead of a boolean; the authentication never yields a user, and the route
  answers 401 or 500 without running its handler, whichever handler it is.
\<close>

theorem stored_user_never_authenticated:
  assumes "authorization req = Basic username pw"
    and "find (\<lambda>u. userName u = username) (users st) = Some user"
  shows "call_user_method e user ''validatePassword'' pw = Inl TypeError
       \<and> fst (basicStrategy e st username pw) = (Error TypeError, [])
       \<and> (\<forall>allowed. fst (passport_authenticate e st req) \<noteq> Inr allowed)
       \<and> (\<exists>rejected st'. (status rejected = 401 \<or> status rejected = 500)
             \<and> (\<forall>h. authenticated_route e h st req = (Some rejected, st')))"
proof -
  have gate: "passport_authenticate e st req =
      (if username = [] \<or> pw = [] then (Inl unauthorized, st)
       else (Inl \<lparr>status = 500, payload = JStr ''Internal Server Error''\<rparr>,
             called (User_findOne_op username) st))"
    using assms by (rule authenticate_stored_user)
  have never: "\<forall>allowed. fst (passport_authenticate e st req) \<noteq> Inr allowed"
    by (simp add: gate)
  have route: "\<exists>rejected st'. (status rejected = 401 \<or> status rejected = 500)
      \<and> (\<forall>h. authenticated_route e h st req = (Some rejected, st'))"
  proof (cases "username = [] \<or> pw = []")
    case True
    then have "\<forall>h. authenticated_route e h st req = (Some unauthorized, st)"
      by (simp add: authenticated_route_def gate)
    moreover have "status unauthorized = 401"
      by (simp add: unauthorized_def)
    ultimately show ?thesis by blast
  next
    case False
    then have "\<forall>h. authenticated_route e h st req =
        (Some \<lparr>status = 500, payload = JStr ''Internal Server Error''\<rparr>,
         called (User_findOne_op username) st)"
      by (simp add: authenticated_route_def gate)
    moreover have "status \<lparr>status = 500, payload = JStr ''Internal Server Error''\<rparr> = 500"
      by simp
    ultimately show ?thesis by blast
  qed
  show ?thesis
    using call_validatePassword basicStrategy_stored_user [OF assms(2)] never route
    by simp
qed

theorem stored_user_never_authenticated_witness:
  "authorization (request_of (Basic ''alice'' ''baseball'') [] []) = Basic ''alice'' ''baseball''
   \<and> find (\<lambda>u. userName u = ''alice'') (users example_store) = Some alice
   \<and> validatePassword example_env alice ''baseball''
   \<and> fst (basicStrategy example_env example_store ''alice'' ''baseball'') = (Error TypeError, [])
   \<and> (\<forall>allowed. fst (passport_authenticate example_env example_store
          (request_of (Basic ''alice'' ''baseball'') [] [])) \<noteq> Inr allowed)"
proof -
  have au: "authorization (request_of (Basic ''alice'' ''baseball'') [] []) = Basic ''alice'' ''baseball''"
    by (simp add: request_of_def)
  have right: "validatePassword example_env alice ''baseball''"
    by (simp add: validatePassword_def example_env_def alice_def)
  show ?thesis
    using stored_user_never_authenticated [OF au find_alice, of example_env] au find_alice right
    by simp
qed

section \<open>Registration (POST /users)\<close>


lemma trim_bob: "trim '' bob '' = ''bob''"
  by code_simp


lemma trim_pw123: "trim ''pw123'' = ''pw123''"
  by (rule trim_unchanged) (simp_all add: white_space_def)

text \<open>
  The handler on the body it is given: 400 when \<open>req.body\<close> is not there (line 102),
  and otherwise the first failure of the six checks on \<open>userName\<close> and \<open>password\<close>, in
  their order, with the store as it was.
\<close>

lemma post_users_without_body:
  "body req = None \<Longrightarrow>
     post_users e st req None =
       (Some \<lparr>status = 400, payload = message ''Empty request body''\<rparr>, st)"
  by (simp add: post_users_def send_def)







lemma register_outcome:
  assumes "register e st n p f l None = (res', st')"
  shows "(users st' = users st \<and> (\<forall>r. res' = Some r \<longrightarrow> status r \<noteq> 201))
       \<or> (\<exists>u. users st' = users st @ [u] \<and> userName u = n \<and> password u = hashPassword e p
              \<and> res' = Some \<lparr>status = 201, payload = User_apiRepr u\<rparr>
              \<and> n \<notin> set (map userName (users st)))"
  using assms
  by (auto simp: register_def User_count_def User_create_def required_String_def send_def
      called_def Let_def res_object_def js_get_def message_def filter_empty_conv
      split: if_splits sum.splits field.splits prod.splits)

lemma post_users_valid:
  assumes "body req = Some b" and "js_get b ''userName'' = JStr n" and "trim n \<noteq> []"
    and "js_get b ''password'' = JStr pw" and "trim pw \<noteq> []"
  shows "post_users e st req res =
           register e st (trim n) (trim pw) (js_get b ''firstName'') (js_get b ''lastName'') res"
proof -
  from assms(2) have "js_in ''userName'' b"
    by (auto simp: js_get_def js_in_def split: option.splits dest: map_of_SomeD intro: rev_image_eqI)
  moreover from assms(4,5) have "truthy (js_get b ''password'')"
    by (auto simp: trim_empty)
  ultimately show ?thesis
    using assms by (simp add: post_users_def Let_def)
qed

lemma post_users_invalid:
  assumes "post_users e st req None = (res', st')"
    and "\<not> (\<exists>b n pw. body req = Some b \<and> js_get b ''userName'' = JStr n \<and> trim n \<noteq> []
              \<and> js_get b ''password'' = JStr pw \<and> trim pw \<noteq> [])"
  shows "st' = st \<and> (\<exists>r. res' = Some r \<and> (status r = 400 \<or> status r = 422))"
proof (cases "body req")
  case None
  with assms(1) show ?thesis
    by (auto simp: post_users_def send_def)
next
  case (Some b)
  with assms show ?thesis
    by (auto simp: post_users_def send_def Let_def is_string_iff split: if_splits)
qed

lemma post_users_outcome:
  assumes "post_users e st req None = (res', st')"
  shows "(users st' = users st \<and> (\<forall>r. res' = Some r \<longrightarrow> status r \<noteq> 201))
       \<or> (\<exists>b n pw u. body req = Some b \<and> js_get b ''userName'' = JStr n \<and> trim n \<noteq> []
              \<and> js_get b ''password'' = JStr pw \<and> trim pw \<noteq> []
              \<and> users st' = users st @ [u] \<and> userName u = trim n
              \<and> password u = hashPassword e (trim pw)
              \<and> res' = Some \<lparr>status = 201, payload = User_apiRepr u\<rparr>)"
proof (cases "\<exists>b n pw. body req = Some b \<and> js_get b ''userName'' = JStr n \<and> trim n \<noteq> []
              \<and> js_get b ''password'' = JStr pw \<and> trim pw \<noteq> []")
  case False
  from post_users_invalid [OF assms False] show ?thesis by auto
next
  case True
  then obtain b n pw where v: "body req = Some b" "js_get b ''userName'' = JStr n" "trim n \<noteq> []"
      "js_get b ''password'' = JStr pw" "trim pw \<noteq> []"
    by blast
  from post_users_valid [OF v] assms
  have "register e st (trim n) (trim pw) (js_get b ''firstName'') (js_get b ''lastName'') None
      = (res', st')"
    by simp
  from register_outcome [OF this] v show ?thesis by auto
qed

lemma bob_registered:
  "post_users example_env example_store bob_request None =
     (Some \<lparr>status = 201, payload = JObj [(''userName'', JStr ''bob''),
        (''firstName'', JUndefined), (''lastName'', JUndefined)]\<rparr>,
      \<lparr>users = [alice, \<lparr>user_id = ''5a0000000000000000000002'', userName = ''bob'',
           password = ''$2a$10$pw123.'', user_firstName = Absent, user_lastName = Absent\<rparr>],
       posts = [example_post], calls = [User_count_op ''bob'', User_create_op]\<rparr>)"
  by (simp add: post_users_def bob_request_def request_of_def js_in_def js_get_def trim_bob
      trim_pw123 register_def User_count_def User_create_def required_String_def
      hashPassword_def example_env_def example_store_def alice_def called_def send_def
      User_apiRepr_def Let_def)

lemma example_hash_differs: "bcrypt_hash example_env p 10 \<noteq> p"
proof
  assume "bcrypt_hash example_env p 10 = p"
  then have "length (''$2a$10$'' @ p @ ''.'') = length p"
    by (simp add: example_env_def)
  then show False by simp
qed

lemma example_hash_trimmed: "trim (bcrypt_hash example_env p 10) = bcrypt_hash example_env p 10"
proof -
  have "trim (''$2a$10$'' @ p @ ''.'') = ''$2a$10$'' @ p @ ''.''"
    by (rule trim_unchanged) (simp_all add: white_space_def)
  then show ?thesis
    by (simp add: example_env_def)
qed

lemma bob_body:
  "body bob_request = Some [(''userName'', JStr '' bob ''), (''password'', JStr ''pw123'')]"
  by (simp add: bob_request_def request_of_def)

text \<open>
  C3. Whenever the registration handler creates a user (the store gains a user, or the
  answer is 201), the stored password is what the hasher returned for the trimmed
  password, the answer is 201 with the public representation of the new user, whose
  keys are \<open>userName\<close>, \<open>firstName\<close> and \<open>lastName\<close>, without \<open>password\<close>. That the stored
  value differs from the submitted text is a property of the hasher, assumed of it
  here: its output is never its input and has no white space at its ends.
\<close>

theorem registration_stores_hash:
  assumes run: "post_users e st req None = (res', st')"
    and created_user: "users st' \<noteq> users st \<or> (\<exists>r. res' = Some r \<and> status r = 201)"
    and hash_differs: "\<And>p. bcrypt_hash e p 10 \<noteq> p"
    and hash_trimmed: "\<And>p. trim (bcrypt_hash e p 10) = bcrypt_hash e p 10"
  shows "\<exists>b pw u repr. body req = Some b \<and> js_get b ''password'' = JStr pw
           \<and> users st' = users st @ [u]
           \<and> password u = bcrypt_hash e (trim pw) 10
           \<and> password u \<noteq> pw \<and> password u \<noteq> trim pw
           \<and> res' = Some \<lparr>status = 201, payload = User_apiRepr u\<rparr>
           \<and> User_apiRepr u = JObj repr
           \<and> map fst repr = [''userName'', ''firstName'', ''lastName'']
           \<and> \<not> js_in ''password'' repr"
proof -
  from post_users_outcome [OF run] created_user
  obtain b n pw u where b: "body req = Some b" and pw: "js_get b ''password'' = JStr pw"
    and u: "users st' = users st @ [u]" and h: "password u = hashPassword e (trim pw)"
    and r: "res' = Some \<lparr>status = 201, payload = User_apiRepr u\<rparr>"
    by auto
  have stored: "password u = bcrypt_hash e (trim pw) 10"
    using h by (simp add: hashPassword_def)
  have not_trimmed: "password u \<noteq> trim pw"
    using stored hash_differs by simp
  have not_plain: "password u \<noteq> pw"
  proof
    assume eq: "password u = pw"
    then have "trim pw = trim (bcrypt_hash e (trim pw) 10)"
      using stored by simp
    then have "trim pw = bcrypt_hash e (trim pw) 10"
      using hash_trimmed by simp
    then show False
      using hash_differs [of "trim pw"] by simp
  qed
  have repr: "User_apiRepr u = JObj [(''userName'', JStr (userName u)),
      (''firstName'', field_value (user_firstName u)),
      (''lastName'', field_value (user_lastName u))]"
    by (simp add: User_apiRepr_def)
  have keys: "map fst [(''userName'', JStr (userName u)),
      (''firstName'', field_value (user_firstName u)),
      (''lastName'', field_value (user_lastName u))] = [''userName'', ''firstName'', ''lastName'']"
    by simp
  have no_password: "\<not> js_in ''password'' [(''userName'', JStr (userName u)),
      (''firstName'', field_value (user_firstName u)),
      (''lastName'', field_value (user_lastName u))]"
    by (simp add: js_in_def)
  show ?thesis
  proof (intro exI conjI)
    show "body req = Some b" by (rule b)
    show "js_get b ''password'' = JStr pw" by (rule pw)
    show "users st' = users st @ [u]" by (rule u)
    show "password u = bcrypt_hash e (trim pw) 10" by (rule stored)
    show "password u \<noteq> pw" by (rule not_plain)
    show "password u \<noteq> trim pw" by (rule not_trimmed)
    show "res' = Some \<lparr>status = 201, payload = User_apiRepr u\<rparr>" by (rule r)
    show "User_apiRepr u = JObj [(''userName'', JStr (userName u)),
      (''firstName'', field_value (user_firstName u)),
      (''lastName'', field_value (user_lastName u))]" by (rule repr)
    show "map fst [(''userName'', JStr (userName u)),
      (''firstName'', field_value (user_firstName u)),
      (''lastName'', field_value (user_lastName u))] = [''userName'', ''firstName'', ''lastName'']"
      by (rule keys)
    show "\<not> js_in ''password'' [(''userName'', JStr (userName u)),
      (''firstName'', field_value (user_firstName u)),
      (''lastName'', field_value (user_lastName u))]" by (rule no_password)
  qed
qed

theorem registration_stores_hash_witness:
  "fst (post_users example_env example_store bob_request None)
     = Some \<lparr>status = 201, payload = JObj [(''userName'', JStr ''bob''),
        (''firstName'', JUndefined), (''lastName'', JUndefined)]\<rparr>
   \<and> map password (users (snd (post_users example_env example_store bob_request None)))
     = [''$2a$10$baseball.'', ''$2a$10$pw123.'']
   \<and> (\<exists>u. users (snd (post_users example_env example_store bob_request None))
          = users example_store @ [u] \<and> password u \<noteq> ''pw123'')"
proof -
  have run: "post_users example_env example_store bob_request None =
      (fst (post_users example_env example_store bob_request None),
       snd (post_users example_env example_store bob_request None))"
    by simp
  have made: "users (snd (post_users example_env example_store bob_request None)) \<noteq> users example_store
      \<or> (\<exists>r. fst (post_users example_env example_store bob_request None) = Some r \<and> status r = 201)"
    by (simp add: bob_registered)
  have pw: "body bob_request = Some [(''userName'', JStr '' bob ''), (''password'', JStr ''pw123'')]"
    by (simp add: bob_request_def request_of_def)
  from registration_stores_hash [OF run made example_hash_differs example_hash_trimmed]
  obtain b pw' u where "body bob_request = Some b" "js_get b ''password'' = JStr pw'"
    "users (snd (post_users example_env example_store bob_request None)) = users example_store @ [u]"
    "password u \<noteq> trim pw'"
    by blast
  with pw have "\<exists>u. users (snd (post_users example_env example_store bob_request None))
          = users example_store @ [u] \<and> password u \<noteq> ''pw123''"
    by (auto simp: js_get_def trim_pw123)
  then show ?thesis
    by (simp add: bob_registered alice_def)
qed

text \<open>
  C6, as amended. When a registration was answered 201 and a second request has the
  same \<open>userName\<close> and a password that passes the checks (a string, not empty when
  trimmed), the count of the users with that name is positive and the second request
  is answered 400 \<open>This username already exists\<close>; no user is added.
\<close>

theorem duplicate_registration:
  assumes first: "post_users e st req None = (Some r, st1)" and ok: "status r = 201"
    and b1: "body req = Some b" and b2: "body req2 = Some b2"
    and same: "js_get b2 ''userName'' = js_get b ''userName''"
    and pw2: "js_get b2 ''password'' = JStr pw2" and pw2_ok: "trim pw2 \<noteq> []"
  shows "\<exists>name st2. js_get b ''userName'' = JStr name
           \<and> 0 < fst (User_count st1 (trim name))
           \<and> post_users e2 st1 req2 None =
               (Some \<lparr>status = 400, payload = message ''This username already exists''\<rparr>, st2)
           \<and> users st2 = users st1"
proof -
  from post_users_outcome [OF first] ok b1
  obtain n u where n: "js_get b ''userName'' = JStr n" and n_ok: "trim n \<noteq> []"
    and u: "users st1 = users st @ [u]" and un: "userName u = trim n"
    by auto
  have count: "0 < fst (User_count st1 (trim n))"
    by (simp add: User_count_def u un)
  have "post_users e2 st1 req2 None =
      register e2 st1 (trim n) (trim pw2) (js_get b2 ''firstName'') (js_get b2 ''lastName'') None"
    using post_users_valid [OF b2 _ n_ok pw2 pw2_ok] same n by simp
  moreover have "\<exists>st2. register e2 st1 (trim n) (trim pw2) (js_get b2 ''firstName'')
        (js_get b2 ''lastName'') None
      = (Some \<lparr>status = 400, payload = message ''This username already exists''\<rparr>, st2)
      \<and> users st2 = users st1"
    using count
    by (simp add: register_def User_count_def User_create_def required_String_def send_def
        called_def Let_def res_object_def js_get_def split: sum.splits)
  ultimately show ?thesis using n count by auto
qed

theorem duplicate_registration_witness:
  "fst (post_users example_env example_store bob_request None)
     = Some \<lparr>status = 201, payload = JObj [(''userName'', JStr ''bob''),
        (''firstName'', JUndefined), (''lastName'', JUndefined)]\<rparr>
   \<and> (\<exists>st2. post_users example_env (snd (post_users example_env example_store bob_request None))
          bob_request None
        = (Some \<lparr>status = 400, payload = message ''This username already exists''\<rparr>, st2)
      \<and> users st2 = users (snd (post_users example_env example_store bob_request None)))"
proof -
  have first: "post_users example_env example_store bob_request None =
      (Some \<lparr>status = 201, payload = JObj [(''userName'', JStr ''bob''),
        (''firstName'', JUndefined), (''lastName'', JUndefined)]\<rparr>,
       snd (post_users example_env example_store bob_request None))"
    by (simp add: bob_registered)
  have ok: "status \<lparr>status = 201, payload = JObj [(''userName'', JStr ''bob''),
        (''firstName'', JUndefined), (''lastName'', JUndefined)]\<rparr> = 201"
    by simp
  have pw: "js_get [(''userName'', JStr '' bob ''), (''password'', JStr ''pw123'')] ''password''
      = JStr ''pw123''"
    by (simp add: js_get_def)
  have pw_ok: "trim ''pw123'' \<noteq> []"
    by (simp add: trim_pw123)
  from duplicate_registration [OF first ok bob_body bob_body refl pw pw_ok, of example_env]
  have second: "\<exists>st2. post_users example_env (snd (post_users example_env example_store bob_request None))
          bob_request None
        = (Some \<lparr>status = 400, payload = message ''This username already exists''\<rparr>, st2)
      \<and> users st2 = users (snd (post_users example_env example_store bob_request None))"
    by blast
  have "fst (post_users example_env example_store bob_request None)
     = Some \<lparr>status = 201, payload = JObj [(''userName'', JStr ''bob''),
        (''firstName'', JUndefined), (''lastName'', JUndefined)]\<rparr>"
    by (simp add: bob_registered)
  then show ?thesis using second by (rule conjI)
qed

text \<open>
  The claim as stated, for every second request with the same \<open>userName\<close>, fails: a
  second request without a password is answered 422 by the validation, which comes
  before the count.
\<close>

theorem duplicate_registration_counterexample:
  "fst (post_users example_env example_store bob_request None)
     = Some \<lparr>status = 201, payload = JObj [(''userName'', JStr ''bob''),
        (''firstName'', JUndefined), (''lastName'', JUndefined)]\<rparr>
   \<and> body_field (body (request_of NoHeader [] [(''userName'', JStr '' bob '')])) ''userName''
     = body_field (body bob_request) ''userName''
   \<and> fst (post_users example_env (snd (post_users example_env example_store bob_request None))
          (request_of NoHeader [] [(''userName'', JStr '' bob '')]) None)
     = Some \<lparr>status = 422, payload = message ''Missing password''\<rparr>"
proof -
  have same: "body_field (body (request_of NoHeader [] [(''userName'', JStr '' bob '')])) ''userName''
     = body_field (body bob_request) ''userName''"
    by (simp add: body_field_def bob_body request_of_def js_get_def)
  have second: "fst (post_users example_env (snd (post_users example_env example_store bob_request None))
          (request_of NoHeader [] [(''userName'', JStr '' bob '')]) None)
     = Some \<lparr>status = 422, payload = message ''Missing password''\<rparr>"
    by (simp add: post_users_def request_of_def js_in_def js_get_def trim_bob send_def
        Let_def)
  from same second show ?thesis
    by (simp add: bob_registered)
qed

section \<open>Posts\<close>

subsection \<open>GET /posts/:id\<close>

text \<open>
  C9. What the code does for an identifier that is valid and matches no post: the
  answer is 500, not the 404 of the claim.
\<close>

theorem get_missing_post:
  assumes "cast_ObjectId (params_id req) = Inr oid"
    and "find (\<lambda>p. post_id p = oid) (posts st) = None"
  shows "get_posts_id st req None =
           (Some \<lparr>status = 500, payload = error ''something went horribly awry''\<rparr>,
            called (BlogPost_findById_op (params_id req)) st)"
  using assms by (simp add: get_posts_id_def BlogPost_findById_def send_def)

lemma cast_example_id:
  "cast_ObjectId ''5b0000000000000000000009'' = Inr ''5b0000000000000000000009''"
  by (simp add: cast_ObjectId_def is_hex_def lower_hex_def)

theorem get_missing_post_witness:
  "cast_ObjectId (params_id (request_of NoHeader ''5b0000000000000000000009'' []))
     = Inr ''5b0000000000000000000009''
   \<and> find (\<lambda>p. post_id p = ''5b0000000000000000000009'') (posts example_store) = None
   \<and> fst (get_posts_id example_store (request_of NoHeader ''5b0000000000000000000009'' []) None)
     = Some \<lparr>status = 500, payload = error ''something went horribly awry''\<rparr>"
proof -
  have c: "cast_ObjectId (params_id (request_of NoHeader ''5b0000000000000000000009'' []))
     = Inr ''5b0000000000000000000009''"
    by (simp add: request_of_def cast_example_id)
  have f: "find (\<lambda>p. post_id p = ''5b0000000000000000000009'') (posts example_store) = None"
    by (simp add: example_store_def example_post_def)
  from get_missing_post [OF c f] c f show ?thesis by simp
qed

subsection \<open>POST /posts\<close>

lemma first_missing_required:
  "first_missing requiredFields b =
     (if \<not> js_in ''title'' b then Some ''title''
      else if \<not> js_in ''content'' b then Some ''content'' else None)"
  by (simp add: requiredFields_def)

lemma post_posts_missing:
  assumes "body req = Some b" and "first_missing requiredFields b = Some field"
  shows "post_posts e st req None = (Some \<lparr>status = 400, payload = JStr (missing_message field)\<rparr>, st)"
  using assms by (simp add: post_posts_def send_def)

lemma post_posts_accepted:
  assumes b: "body req = Some b" and present: "first_missing requiredFields b = None"
    and t: "required_String (js_get b ''title'') = Inr t"
    and c: "cast_String (js_get b ''content'') = Inr c"
    and a: "cast_Author (js_get b ''author'') = Inr a"
  shows "post_posts e st req None =
           (Some \<lparr>status = 201,
              payload = BlogPost_apiRepr
                \<lparr>post_id = new_id e, author = a, title = Text t, content = c,
                 created = Some (now e)\<rparr>\<rparr>,
            (called BlogPost_create_op st)
              \<lparr>posts := posts st @
                 [\<lparr>post_id = new_id e, author = a, title = Text t, content = c,
                   created = Some (now e)\<rparr>]\<rparr>)"
  using assms by (simp add: post_posts_def BlogPost_create_def send_def Let_def)

lemma post_posts_rejected:
  assumes b: "body req = Some b" and present: "first_missing requiredFields b = None"
    and bad: "required_String (js_get b ''title'') = Inl err
      \<or> cast_String (js_get b ''content'') = Inl err
      \<or> cast_Author (js_get b ''author'') = Inl err"
  shows "\<exists>st'. post_posts e st req None =
           (Some \<lparr>status = 500, payload = error ''Something went wrong''\<rparr>, st')
         \<and> posts st' = posts st"
  using assms
  by (auto simp: post_posts_def BlogPost_create_def send_def Let_def called_def
      split: sum.splits)

lemma js_get_absent: "\<not> js_in key b \<Longrightarrow> js_get b key = JUndefined"
  by (auto simp: js_get_def js_in_def split: option.splits dest: map_of_SomeD intro: rev_image_eqI)

text \<open>
  C7, as amended. When \<open>title\<close> or \<open>content\<close> is not a key of the body, the answer is 400
  with the message naming the first missing field, and the store is as it was. When
  both keys are there, the answer follows the schema. If it accepts the document
  (\<open>title\<close> casts to a string that is not empty, \<open>content\<close> and the author's names can be
  cast), the answer is 201, the post is stored, \<open>title\<close> and \<open>content\<close> of the
  representation are the submitted values as cast to strings, and \<open>author\<close> is the
  trimmed \<open>firstName lastName\<close> of the stored names. If it refuses the document, the
  answer is 500 and no post is stored. A \<open>title\<close> that is a string and not empty is
  accepted as it is, a \<open>content\<close> that is a string is kept as it is; with no \<open>author\<close> in
  the body both names are absent, with an \<open>author\<close> whose names are strings they are
  those strings; a \<open>title\<close> that is \<open>null\<close> or the empty string is refused.
\<close>

theorem create_post:
  assumes b: "body req = Some b"
  shows "(\<forall>field. first_missing requiredFields b = Some field \<longrightarrow>
            \<not> js_in field b \<and> (field = ''title'' \<or> field = ''content'')
          \<and> post_posts e st req None =
               (Some \<lparr>status = 400, payload = JStr (missing_message field)\<rparr>, st))
       \<and> (first_missing requiredFields b = None \<longleftrightarrow> js_in ''title'' b \<and> js_in ''content'' b)
       \<and> (first_missing requiredFields b = None \<longrightarrow>
            (\<forall>t c a. required_String (js_get b ''title'') = Inr t
                \<and> cast_String (js_get b ''content'') = Inr c
                \<and> cast_Author (js_get b ''author'') = Inr a \<longrightarrow>
               (\<exists>blogPost repr st'.
                  post_posts e st req None = (Some \<lparr>status = 201, payload = JObj repr\<rparr>, st')
                \<and> BlogPost_apiRepr blogPost = JObj repr
                \<and> posts st' = posts st @ [blogPost]
                \<and> title blogPost = Text t \<and> content blogPost = c \<and> author blogPost = a
                \<and> js_get repr ''title'' = JStr t
                \<and> js_get repr ''content'' = field_value c
                \<and> js_get repr ''author'' =
                     JStr (trim (field_String (firstName a) @ '' '' @ field_String (lastName a)))))
          \<and> (\<forall>err. required_String (js_get b ''title'') = Inl err
                \<or> cast_String (js_get b ''content'') = Inl err
                \<or> cast_Author (js_get b ''author'') = Inl err \<longrightarrow>
               (\<exists>st'. post_posts e st req None =
                    (Some \<lparr>status = 500, payload = error ''Something went wrong''\<rparr>, st')
                  \<and> posts st' = posts st)))
       \<and> (\<forall>t. js_get b ''title'' = JStr t \<and> t \<noteq> [] \<longrightarrow>
            required_String (js_get b ''title'') = Inr t)
       \<and> (\<forall>c. js_get b ''content'' = JStr c \<longrightarrow>
            cast_String (js_get b ''content'') = Inr (Text c))
       \<and> (\<not> js_in ''author'' b \<longrightarrow>
            cast_Author (js_get b ''author'') = Inr \<lparr>firstName = Absent, lastName = Absent\<rparr>)
       \<and> (\<forall>a f l. js_get b ''author'' = JObj a
              \<and> js_get a ''firstName'' = JStr f \<and> js_get a ''lastName'' = JStr l \<longrightarrow>
            cast_Author (js_get b ''author'') = Inr \<lparr>firstName = Text f, lastName = Text l\<rparr>)
       \<and> (js_get b ''title'' = JNull \<or> js_get b ''title'' = JStr [] \<longrightarrow>
            required_String (js_get b ''title'') = Inl ValidationError)"
proof (intro conjI allI impI)
  fix field
  assume m: "first_missing requiredFields b = Some field"
  then show "\<not> js_in field b"
    by (auto simp: first_missing_required split: if_splits)
  from m show "field = ''title'' \<or> field = ''content''"
    by (auto simp: first_missing_required split: if_splits)
  from post_posts_missing [OF b m]
  show "post_posts e st req None =
      (Some \<lparr>status = 400, payload = JStr (missing_message field)\<rparr>, st)" .
next
  show "first_missing requiredFields b = None \<longleftrightarrow> js_in ''title'' b \<and> js_in ''content'' b"
    by (simp add: first_missing_required)
next
  fix t c a
  assume present: "first_missing requiredFields b = None"
    and h: "required_String (js_get b ''title'') = Inr t
      \<and> cast_String (js_get b ''content'') = Inr c
      \<and> cast_Author (js_get b ''author'') = Inr a"
  let ?post = "\<lparr>post_id = new_id e, author = a, title = Text t, content = c,
                 created = Some (now e)\<rparr>"
  let ?repr = "[(''id'', JStr (new_id e)),
      (''author'', JStr (trim (field_String (firstName a) @ '' '' @ field_String (lastName a)))),
      (''content'', field_value c), (''title'', JStr t),
      (''created'', JNum (show_int (now e)))]"
  have repr: "BlogPost_apiRepr ?post = JObj ?repr"
    by (simp add: BlogPost_apiRepr_def authorName_def)
  have run: "post_posts e st req None =
      (Some \<lparr>status = 201, payload = JObj ?repr\<rparr>,
       (called BlogPost_create_op st)\<lparr>posts := posts st @ [?post]\<rparr>)"
    using post_posts_accepted [OF b present, of t c a e st] h repr by simp
  show "\<exists>blogPost repr st'.
          post_posts e st req None = (Some \<lparr>status = 201, payload = JObj repr\<rparr>, st')
        \<and> BlogPost_apiRepr blogPost = JObj repr
        \<and> posts st' = posts st @ [blogPost]
        \<and> title blogPost = Text t \<and> content blogPost = c \<and> author blogPost = a
        \<and> js_get repr ''title'' = JStr t
        \<and> js_get repr ''content'' = field_value c
        \<and> js_get repr ''author'' =
             JStr (trim (field_String (firstName a) @ '' '' @ field_String (lastName a)))"
  proof (intro exI conjI)
    show "post_posts e st req None =
      (Some \<lparr>status = 201, payload = JObj ?repr\<rparr>,
       (called BlogPost_create_op st)\<lparr>posts := posts st @ [?post]\<rparr>)" by (rule run)
    show "BlogPost_apiRepr ?post = JObj ?repr" by (rule repr)
    show "posts ((called BlogPost_create_op st)\<lparr>posts := posts st @ [?post]\<rparr>) = posts st @ [?post]"
      by simp
    show "title ?post = Text t" by simp
    show "content ?post = c" by simp
    show "author ?post = a" by simp
    show "js_get ?repr ''title'' = JStr t" by (simp add: js_get_def)
    show "js_get ?repr ''content'' = field_value c" by (simp add: js_get_def)
    show "js_get ?repr ''author'' =
        JStr (trim (field_String (firstName a) @ '' '' @ field_String (lastName a)))"
      by (simp add: js_get_def)
  qed
next
  fix err
  assume present: "first_missing requiredFields b = None"
    and bad: "required_String (js_get b ''title'') = Inl err
      \<or> cast_String (js_get b ''content'') = Inl err
      \<or> cast_Author (js_get b ''author'') = Inl err"
  from post_posts_rejected [OF b present bad]
  show "\<exists>st'. post_posts e st req None =
        (Some \<lparr>status = 500, payload = error ''Something went wrong''\<rparr>, st')
      \<and> posts st' = posts st" .
next
  fix t
  assume "js_get b ''title'' = JStr t \<and> t \<noteq> []"
  then show "required_String (js_get b ''title'') = Inr t"
    by (simp add: required_String_def)
next
  fix c
  assume "js_get b ''content'' = JStr c"
  then show "cast_String (js_get b ''content'') = Inr (Text c)"
    by simp
next
  assume "\<not> js_in ''author'' b"
  then show "cast_Author (js_get b ''author'') = Inr \<lparr>firstName = Absent, lastName = Absent\<rparr>"
    by (simp add: js_get_absent cast_Author_def)
next
  fix a f l
  assume "js_get b ''author'' = JObj a
    \<and> js_get a ''firstName'' = JStr f \<and> js_get a ''lastName'' = JStr l"
  then show "cast_Author (js_get b ''author'') = Inr \<lparr>firstName = Text f, lastName = Text l\<rparr>"
    by (simp add: cast_Author_def)
next
  assume "js_get b ''title'' = JNull \<or> js_get b ''title'' = JStr []"
  then show "required_String (js_get b ''title'') = Inl ValidationError"
    by (auto simp: required_String_def)
qed

lemma trim_Ann_Lee: "trim (''Ann'' @ '' '' @ ''Lee '') = ''Ann Lee''"
  by code_simp

theorem create_post_witness:
  "(\<exists>blogPost repr st'.
         post_posts example_env example_store new_post_request None
           = (Some \<lparr>status = 201, payload = JObj repr\<rparr>, st')
       \<and> BlogPost_apiRepr blogPost = JObj repr
       \<and> posts st' = posts example_store @ [blogPost]
       \<and> js_get repr ''title'' = JStr ''Hello''
       \<and> js_get repr ''content'' = JStr ''First post''
       \<and> js_get repr ''author'' = JStr ''Ann Lee'')
   \<and> (\<exists>blogPost repr st'.
         post_posts example_env example_store anonymous_post_request None
           = (Some \<lparr>status = 201, payload = JObj repr\<rparr>, st')
       \<and> BlogPost_apiRepr blogPost = JObj repr
       \<and> posts st' = posts example_store @ [blogPost]
       \<and> js_get repr ''title'' = JStr ''Hello''
       \<and> js_get repr ''content'' = JNull
       \<and> js_get repr ''author'' = JStr ''undefined undefined'')
   \<and> post_posts example_env example_store (request_of NoHeader [] [(''content'', JStr ''First post'')]) None
       = (Some \<lparr>status = 400, payload = JStr (missing_message ''title'')\<rparr>, example_store)"
proof (intro conjI)
  let ?b = "[(''title'', JStr ''Hello''), (''content'', JStr ''First post''),
        (''author'', JObj [(''firstName'', JStr ''Ann''), (''lastName'', JStr ''Lee '')])]"
  have b: "body new_post_request = Some ?b"
    by (simp add: new_post_request_def request_of_def)
  have present: "first_missing requiredFields ?b = None"
    by (simp add: requiredFields_def js_in_def)
  have casts: "required_String (js_get ?b ''title'') = Inr ''Hello''
      \<and> cast_String (js_get ?b ''content'') = Inr (Text ''First post'')
      \<and> cast_Author (js_get ?b ''author'') = Inr \<lparr>firstName = Text ''Ann'', lastName = Text ''Lee ''\<rparr>"
    by (simp add: js_get_def required_String_def cast_Author_def)
  from create_post [OF b, of example_env example_store] present casts
  have "\<exists>blogPost repr st'.
         post_posts example_env example_store new_post_request None
           = (Some \<lparr>status = 201, payload = JObj repr\<rparr>, st')
       \<and> BlogPost_apiRepr blogPost = JObj repr
       \<and> posts st' = posts example_store @ [blogPost]
       \<and> title blogPost = Text ''Hello'' \<and> content blogPost = Text ''First post''
       \<and> author blogPost = \<lparr>firstName = Text ''Ann'', lastName = Text ''Lee ''\<rparr>
       \<and> js_get repr ''title'' = JStr ''Hello''
       \<and> js_get repr ''content'' = field_value (Text ''First post'')
       \<and> js_get repr ''author'' =
            JStr (trim (field_String (firstName \<lparr>firstName = Text ''Ann'', lastName = Text ''Lee ''\<rparr>)
              @ '' '' @ field_String (lastName \<lparr>firstName = Text ''Ann'', lastName = Text ''Lee ''\<rparr>)))"
    by blast
  then show "\<exists>blogPost repr st'.
         post_posts example_env example_store new_post_request None
           = (Some \<lparr>status = 201, payload = JObj repr\<rparr>, st')
       \<and> BlogPost_apiRepr blogPost = JObj repr
       \<and> posts st' = posts example_store @ [blogPost]
       \<and> js_get repr ''title'' = JStr ''Hello''
       \<and> js_get repr ''content'' = JStr ''First post''
       \<and> js_get repr ''author'' = JStr ''Ann Lee''"
    using trim_Ann_Lee by auto
next
  let ?b = "[(''title'', JStr ''Hello''), (''content'', JNull)]"
  have b: "body anonymous_post_request = Some ?b"
    by (simp add: anonymous_post_request_def request_of_def)
  have present: "first_missing requiredFields ?b = None"
    by (simp add: requiredFields_def js_in_def)
  have casts: "required_String (js_get ?b ''title'') = Inr ''Hello''
      \<and> cast_String (js_get ?b ''content'') = Inr IsNull
      \<and> cast_Author (js_get ?b ''author'') = Inr \<lparr>firstName = Absent, lastName = Absent\<rparr>"
    by (simp add: js_get_def required_String_def cast_Author_def)
  from create_post [OF b, of example_env example_store] present casts
  have "\<exists>blogPost repr st'.
         post_posts example_env example_store anonymous_post_request None
           = (Some \<lparr>status = 201, payload = JObj repr\<rparr>, st')
       \<and> BlogPost_apiRepr blogPost = JObj repr
       \<and> posts st' = posts example_store @ [blogPost]
       \<and> title blogPost = Text ''Hello'' \<and> content blogPost = IsNull
       \<and> author blogPost = \<lparr>firstName = Absent, lastName = Absent\<rparr>
       \<and> js_get repr ''title'' = JStr ''Hello''
       \<and> js_get repr ''content'' = field_value IsNull
       \<and> js_get repr ''author'' =
            JStr (trim (field_String (firstName \<lparr>firstName = Absent, lastName = Absent\<rparr>)
              @ '' '' @ field_String (lastName \<lparr>firstName = Absent, lastName = Absent\<rparr>)))"
    by blast
  then show "\<exists>blogPost repr st'.
         post_posts example_env example_store anonymous_post_request None
           = (Some \<lparr>status = 201, payload = JObj repr\<rparr>, st')
       \<and> BlogPost_apiRepr blogPost = JObj repr
       \<and> posts st' = posts example_store @ [blogPost]
       \<and> js_get repr ''title'' = JStr ''Hello''
       \<and> js_get repr ''content'' = JNull
       \<and> js_get repr ''author'' = JStr ''undefined undefined''"
    using trim_undefined_undefined by auto
next
  have b2: "body (request_of NoHeader [] [(''content'', JStr ''First post'')])
      = Some [(''content'', JStr ''First post'')]"
    by (simp add: request_of_def)
  have m: "first_missing requiredFields [(''content'', JStr ''First post'')] = Some ''title''"
    by (simp add: requiredFields_def js_in_def)
  from create_post [OF b2, of example_env example_store] m
  show "post_posts example_env example_store
      (request_of NoHeader [] [(''content'', JStr ''First post'')]) None
       = (Some \<lparr>status = 400, payload = JStr (missing_message ''title'')\<rparr>, example_store)"
    by blast
qed

text \<open>
  The claim as stated, 201 whenever both keys are present, fails: a \<open>title\<close> that is
  present but empty, or \<open>null\<close>, is rejected by \<open>required: true\<close> and the answer is 500.
\<close>

theorem create_post_counterexample:
  "js_in ''title'' [(''title'', JStr ''''), (''content'', JStr ''First post'')]
   \<and> js_in ''content'' [(''title'', JStr ''''), (''content'', JStr ''First post'')]
   \<and> post_posts example_env example_store
        (request_of NoHeader [] [(''title'', JStr ''''), (''content'', JStr ''First post'')]) None
      = (Some \<lparr>status = 500, payload = error ''Something went wrong''\<rparr>,
         called BlogPost_create_op example_store)
   \<and> js_in ''title'' [(''title'', JNull), (''content'', JStr ''First post'')]
   \<and> js_in ''content'' [(''title'', JNull), (''content'', JStr ''First post'')]
   \<and> post_posts example_env example_store
        (request_of NoHeader [] [(''title'', JNull), (''content'', JStr ''First post'')]) None
      = (Some \<lparr>status = 500, payload = error ''Something went wrong''\<rparr>,
         called BlogPost_create_op example_store)"
  by (simp add: post_posts_def request_of_def requiredFields_def js_in_def js_get_def
      BlogPost_create_def required_String_def send_def Let_def)

subsection \<open>PUT /posts/:id\<close>

lemma build_updated_explicit:
  "build_updated b =
     (if js_in ''title'' b then [(''title'', js_get b ''title'')] else [])
     @ (if js_in ''content'' b then [(''content'', js_get b ''content'')] else [])
     @ (if js_in ''author'' b then [(''author'', js_get b ''author'')] else [])"
  by (simp add: build_updated_def updateableFields_def)

text \<open>Only the three fields of the handler's list reach the store.\<close>

lemma build_updated_keys: "set (map fst (build_updated b)) \<subseteq> set updateableFields"
  by (auto simp: build_updated_explicit updateableFields_def split: if_splits)

lemma build_updated_no_conflict: "\<not> conflicting (build_updated b)"
  by (auto simp: build_updated_explicit conflicting_def js_in_def split: if_splits)

text \<open>
  What the store does with the other keys, were they to reach it: \<open>created\<close> is set,
  and an \<open>_id\<close> that differs is refused.
\<close>

lemma store_sets_created:
  "BlogPost_findByIdAndUpdate example_env example_store ''5b0000000000000000000001''
     [(''created'', JNum ''0'')] =
     (Inr (Some (example_post\<lparr>created := Some 0\<rparr>)),
      \<lparr>users = [alice], posts = [example_post\<lparr>created := Some 0\<rparr>],
       calls = [BlogPost_findByIdAndUpdate_op ''5b0000000000000000000001'']\<rparr>)"
  by (simp add: BlogPost_findByIdAndUpdate_def cast_ObjectId_def is_hex_def lower_hex_def
      cast_setter_def cast_Date_def conflicting_def js_in_def example_env_def example_store_def
      example_post_def called_def Let_def)

lemma store_refuses_id:
  "fst (BlogPost_findByIdAndUpdate example_env example_store ''5b0000000000000000000001''
     [(''_id'', JStr ''5b0000000000000000000002'')]) = Inl ImmutableField"
  by (simp add: BlogPost_findByIdAndUpdate_def cast_ObjectId_def is_hex_def lower_hex_def
      cast_setter_def conflicting_def js_in_def example_store_def example_post_def called_def
      Let_def)

lemma updated_fields:
  assumes "cast_update e (build_updated b) = Inr sets"
  shows "\<exists>p'. apply_setters sets p = Inr p'
           \<and> post_id p' = post_id p \<and> created p' = created p
           \<and> (\<not> js_in ''title'' b \<longrightarrow> title p' = title p)
           \<and> (\<not> js_in ''content'' b \<longrightarrow> content p' = content p)
           \<and> (\<not> js_in ''author'' b \<longrightarrow> author p' = author p)
           \<and> (js_in ''title'' b \<longrightarrow> cast_String (js_get b ''title'') = Inr (title p'))
           \<and> (js_in ''content'' b \<longrightarrow> cast_String (js_get b ''content'') = Inr (content p'))
           \<and> (js_in ''author'' b \<longrightarrow> cast_Author (js_get b ''author'') = Inr (author p'))"
  using assms
  by (auto simp: build_updated_explicit cast_setter_def split: if_splits sum.splits)

lemma replace_first_length: "length (replace_first oid p' ps) = length ps"
  by (induction ps) simp_all

lemma replace_first_nth:
  assumes "i < length ps"
  shows "replace_first oid p' ps ! i = ps ! i
       \<or> (replace_first oid p' ps ! i = p' \<and> find (\<lambda>p. post_id p = oid) ps = Some (ps ! i))"
  using assms
proof (induction ps arbitrary: i)
  case Nil
  then show ?case by simp
next
  case (Cons p ps)
  then show ?case by (cases i) auto
qed

lemma find_replace_first:
  assumes "find (\<lambda>p. post_id p = oid) ps = Some p" and "post_id p' = oid"
  shows "find (\<lambda>p. post_id p = oid) (replace_first oid p' ps) = Some p'"
  using assms by (induction ps) (auto split: if_splits)

lemma put_posts_outcome:
  assumes "body req = Some b" and "put_posts_id e st req None = (res', st')"
  shows "users st' = users st
       \<and> ((posts st' = posts st \<and> (\<forall>r. res' = Some r \<longrightarrow> status r \<noteq> 201))
          \<or> (\<exists>oid sets p p'. cast_ObjectId (params_id req) = Inr oid
                \<and> cast_update e (build_updated b) = Inr sets
                \<and> find (\<lambda>p. post_id p = oid) (posts st) = Some p
                \<and> apply_setters sets p = Inr p'
                \<and> posts st' = replace_first oid p' (posts st)
                \<and> (ids_match (params_id req) b \<longrightarrow>
                     res' = Some \<lparr>status = 201, payload = BlogPost_apiRepr p'\<rparr>)))"
  using assms
  by (auto simp: put_posts_id_def BlogPost_findByIdAndUpdate_def send_def called_def Let_def
      split: sum.splits option.splits if_splits)

lemma cast_example_post_id:
  "cast_ObjectId ''5b0000000000000000000001'' = Inr ''5b0000000000000000000001''"
  by (simp add: cast_ObjectId_def is_hex_def lower_hex_def)

lemma guarded_run:
  "put_posts_id example_env example_store guarded_request None =
     (Some \<lparr>status = 201, payload = BlogPost_apiRepr (example_post\<lparr>title := Text ''new title''\<rparr>)\<rparr>,
      \<lparr>users = [alice], posts = [example_post\<lparr>title := Text ''new title''\<rparr>],
       calls = [BlogPost_findByIdAndUpdate_op ''5b0000000000000000000001'']\<rparr>)"
  by (simp add: put_posts_id_def guarded_request_def request_of_def ids_match_def js_get_def
      build_updated_explicit js_in_def BlogPost_findByIdAndUpdate_def cast_example_post_id
      cast_setter_def conflicting_def example_store_def example_post_def called_def send_def
      Let_def)

text \<open>
  C8. For a request whose path and body identifiers match: only keys among \<open>title\<close>,
  \<open>content\<close> and \<open>author\<close> reach the store; the users are untouched; every stored post
  keeps its identifier and \<open>created\<close>, and keeps \<open>title\<close>, \<open>content\<close> and \<open>author\<close>
  whenever that key is not in the body; and when the answer is 201, the post with the
  identifier holds, for each of the three keys that is in the body, the body's value
  cast to the schema, and is the post represented in the answer.
\<close>

theorem update_applies_only_present_fields:
  assumes b: "body req = Some b" and ids: "ids_match (params_id req) b"
    and run: "put_posts_id e st req None = (res', st')"
  shows "set (map fst (build_updated b)) \<subseteq> {''title'', ''content'', ''author''}
       \<and> users st' = users st \<and> length (posts st') = length (posts st)
       \<and> (\<forall>i<length (posts st).
             post_id (posts st' ! i) = post_id (posts st ! i)
           \<and> created (posts st' ! i) = created (posts st ! i)
           \<and> (\<not> js_in ''title'' b \<longrightarrow> title (posts st' ! i) = title (posts st ! i))
           \<and> (\<not> js_in ''content'' b \<longrightarrow> content (posts st' ! i) = content (posts st ! i))
           \<and> (\<not> js_in ''author'' b \<longrightarrow> author (posts st' ! i) = author (posts st ! i)))
       \<and> (\<forall>r. res' = Some r \<and> status r = 201 \<longrightarrow>
             (\<exists>updatedPost. find (\<lambda>p. post_id p = post_id updatedPost) (posts st') = Some updatedPost
                \<and> cast_ObjectId (params_id req) = Inr (post_id updatedPost)
                \<and> payload r = BlogPost_apiRepr updatedPost
                \<and> (js_in ''title'' b \<longrightarrow>
                      cast_String (js_get b ''title'') = Inr (title updatedPost))
                \<and> (js_in ''content'' b \<longrightarrow>
                      cast_String (js_get b ''content'') = Inr (content updatedPost))
                \<and> (js_in ''author'' b \<longrightarrow>
                      cast_Author (js_get b ''author'') = Inr (author updatedPost))))"
proof -
  have keys: "set (map fst (build_updated b)) \<subseteq> {''title'', ''content'', ''author''}"
    using build_updated_keys [of b] by (simp add: updateableFields_def)
  from put_posts_outcome [OF b run] have u: "users st' = users st"
    and cases: "(posts st' = posts st \<and> (\<forall>r. res' = Some r \<longrightarrow> status r \<noteq> 201))
          \<or> (\<exists>oid sets p p'. cast_ObjectId (params_id req) = Inr oid
                \<and> cast_update e (build_updated b) = Inr sets
                \<and> find (\<lambda>p. post_id p = oid) (posts st) = Some p
                \<and> apply_setters sets p = Inr p'
                \<and> posts st' = replace_first oid p' (posts st)
                \<and> (ids_match (params_id req) b \<longrightarrow>
                     res' = Some \<lparr>status = 201, payload = BlogPost_apiRepr p'\<rparr>))"
    by blast+
  from cases show ?thesis
  proof
    assume "posts st' = posts st \<and> (\<forall>r. res' = Some r \<longrightarrow> status r \<noteq> 201)"
    with u keys show ?thesis by auto
  next
    assume "\<exists>oid sets p p'. cast_ObjectId (params_id req) = Inr oid
                \<and> cast_update e (build_updated b) = Inr sets
                \<and> find (\<lambda>p. post_id p = oid) (posts st) = Some p
                \<and> apply_setters sets p = Inr p'
                \<and> posts st' = replace_first oid p' (posts st)
                \<and> (ids_match (params_id req) b \<longrightarrow>
                     res' = Some \<lparr>status = 201, payload = BlogPost_apiRepr p'\<rparr>)"
    then obtain oid sets p p' where oid: "cast_ObjectId (params_id req) = Inr oid"
      and sets: "cast_update e (build_updated b) = Inr sets"
      and p: "find (\<lambda>p. post_id p = oid) (posts st) = Some p"
      and p': "apply_setters sets p = Inr p'"
      and posts': "posts st' = replace_first oid p' (posts st)"
      and res': "res' = Some \<lparr>status = 201, payload = BlogPost_apiRepr p'\<rparr>"
      using ids by blast
    from updated_fields [OF sets, of p] p'
    have fields: "post_id p' = post_id p" "created p' = created p"
      "\<not> js_in ''title'' b \<longrightarrow> title p' = title p"
      "\<not> js_in ''content'' b \<longrightarrow> content p' = content p"
      "\<not> js_in ''author'' b \<longrightarrow> author p' = author p"
      "js_in ''title'' b \<longrightarrow> cast_String (js_get b ''title'') = Inr (title p')"
      "js_in ''content'' b \<longrightarrow> cast_String (js_get b ''content'') = Inr (content p')"
      "js_in ''author'' b \<longrightarrow> cast_Author (js_get b ''author'') = Inr (author p')"
      by auto
    have len: "length (posts st') = length (posts st)"
      by (simp add: posts' replace_first_length)
    have frame: "post_id (posts st' ! i) = post_id (posts st ! i)
           \<and> created (posts st' ! i) = created (posts st ! i)
           \<and> (\<not> js_in ''title'' b \<longrightarrow> title (posts st' ! i) = title (posts st ! i))
           \<and> (\<not> js_in ''content'' b \<longrightarrow> content (posts st' ! i) = content (posts st ! i))
           \<and> (\<not> js_in ''author'' b \<longrightarrow> author (posts st' ! i) = author (posts st ! i))"
      if i: "i < length (posts st)" for i
    proof -
      from replace_first_nth [OF i, of oid p'] posts' p
      consider "posts st' ! i = posts st ! i" | "posts st' ! i = p'" "posts st ! i = p"
        by auto
      then show ?thesis
      proof cases
        case 1
        then show ?thesis by simp
      next
        case 2
        then show ?thesis
          using fields(1-5) by simp
      qed
    qed
    have pid: "post_id p = oid"
      using p by (auto simp: find_Some_iff)
    then have pid': "post_id p' = oid"
      using fields(1) by simp
    have found: "find (\<lambda>q. post_id q = post_id p') (posts st') = Some p'"
      using find_replace_first [OF p pid'] pid' posts' by simp
    have applied: "\<exists>updatedPost. find (\<lambda>p. post_id p = post_id updatedPost) (posts st') = Some updatedPost
                \<and> cast_ObjectId (params_id req) = Inr (post_id updatedPost)
                \<and> payload r = BlogPost_apiRepr updatedPost
                \<and> (js_in ''title'' b \<longrightarrow>
                      cast_String (js_get b ''title'') = Inr (title updatedPost))
                \<and> (js_in ''content'' b \<longrightarrow>
                      cast_String (js_get b ''content'') = Inr (content updatedPost))
                \<and> (js_in ''author'' b \<longrightarrow>
                      cast_Author (js_get b ''author'') = Inr (author updatedPost))"
      if r: "res' = Some r" for r
    proof (intro exI [of _ p'] conjI)
      show "find (\<lambda>q. post_id q = post_id p') (posts st') = Some p'" by (rule found)
      show "cast_ObjectId (params_id req) = Inr (post_id p')" using oid pid' by simp
      show "payload r = BlogPost_apiRepr p'" using r res' by auto
      show "js_in ''title'' b \<longrightarrow> cast_String (js_get b ''title'') = Inr (title p')"
        by (rule fields(6))
      show "js_in ''content'' b \<longrightarrow> cast_String (js_get b ''content'') = Inr (content p')"
        by (rule fields(7))
      show "js_in ''author'' b \<longrightarrow> cast_Author (js_get b ''author'') = Inr (author p')"
        by (rule fields(8))
    qed
    from keys u len frame applied show ?thesis by blast
  qed
qed

theorem update_applies_only_present_fields_witness:
  "ids_match (params_id guarded_request)
        [(''id'', JStr ''5b0000000000000000000001''), (''title'', JStr ''new title''),
         (''created'', JNum ''0''), (''_id'', JStr ''5b0000000000000000000002'')]
   \<and> fst (put_posts_id example_env example_store guarded_request None)
        = Some \<lparr>status = 201,
                payload = BlogPost_apiRepr (example_post\<lparr>title := Text ''new title''\<rparr>)\<rparr>
   \<and> posts (snd (put_posts_id example_env example_store guarded_request None))
        = [example_post\<lparr>title := Text ''new title''\<rparr>]
   \<and> post_id (posts (snd (put_posts_id example_env example_store guarded_request None)) ! 0)
        = post_id (posts example_store ! 0)
   \<and> created (posts (snd (put_posts_id example_env example_store guarded_request None)) ! 0)
        = Some 7
   \<and> content (posts (snd (put_posts_id example_env example_store guarded_request None)) ! 0)
        = content (posts example_store ! 0)
   \<and> author (posts (snd (put_posts_id example_env example_store guarded_request None)) ! 0)
        = author (posts example_store ! 0)"
proof -
  let ?b = "[(''id'', JStr ''5b0000000000000000000001''), (''title'', JStr ''new title''),
         (''created'', JNum ''0''), (''_id'', JStr ''5b0000000000000000000002'')]"
  have b: "body guarded_request = Some ?b"
    by (simp add: guarded_request_def request_of_def)
  have ids: "ids_match (params_id guarded_request) ?b"
    by (simp add: guarded_request_def request_of_def ids_match_def js_get_def)
  have run: "put_posts_id example_env example_store guarded_request None =
      (fst (put_posts_id example_env example_store guarded_request None),
       snd (put_posts_id example_env example_store guarded_request None))"
    by simp
  have absent: "\<not> js_in ''content'' ?b" "\<not> js_in ''author'' ?b"
    by (simp_all add: js_in_def)
  have len: "0 < length (posts example_store)"
    by (simp add: example_store_def)
  have before: "created (posts example_store ! 0) = Some 7"
    by (simp add: example_store_def example_post_def)
  from update_applies_only_present_fields [OF b ids run] absent len
  have "post_id (posts (snd (put_posts_id example_env example_store guarded_request None)) ! 0)
        = post_id (posts example_store ! 0)
      \<and> created (posts (snd (put_posts_id example_env example_store guarded_request None)) ! 0)
        = created (posts example_store ! 0)
      \<and> content (posts (snd (put_posts_id example_env example_store guarded_request None)) ! 0)
        = content (posts example_store ! 0)
      \<and> author (posts (snd (put_posts_id example_env example_store guarded_request None)) ! 0)
        = author (posts example_store ! 0)"
    by blast
  with ids before show ?thesis
    by (simp add: guarded_run)
qed

text \<open>
  C4. What the code does when the identifiers do not match and the path identifier is
  that of a stored post: the answer is 400, and the post is updated all the same; with
  a \<open>title\<close> in the body, the stored title is the new one.
\<close>

theorem put_mismatch_still_updates:
  assumes b: "body req = Some b" and differ: "\<not> ids_match (params_id req) b"
    and oid: "cast_ObjectId (params_id req) = Inr oid"
    and p: "find (\<lambda>p. post_id p = oid) (posts st) = Some p"
    and sets: "cast_update e (build_updated b) = Inr sets"
    and t: "js_get b ''title'' = JStr t"
  shows "\<exists>st' p'. put_posts_id e st req None =
             (Some \<lparr>status = 400,
                     payload = error ''Request path id and request body id values must match''\<rparr>, st')
           \<and> posts st' = replace_first oid p' (posts st)
           \<and> find (\<lambda>p. post_id p = oid) (posts st') = Some p'
           \<and> title p' = Text t"
proof -
  from updated_fields [OF sets, of p] obtain p' where p': "apply_setters sets p = Inr p'"
    and same_id: "post_id p' = post_id p"
    and title': "js_in ''title'' b \<longrightarrow> cast_String (js_get b ''title'') = Inr (title p')"
    by blast
  have run: "put_posts_id e st req None =
      (Some \<lparr>status = 400,
              payload = error ''Request path id and request body id values must match''\<rparr>,
       (called (BlogPost_findByIdAndUpdate_op (params_id req)) st)
         \<lparr>posts := replace_first oid p' (posts st)\<rparr>)"
    using b differ oid p sets p' build_updated_no_conflict [of b]
    by (simp add: put_posts_id_def BlogPost_findByIdAndUpdate_def send_def Let_def)
  have "post_id p = oid"
    using p by (auto simp: find_Some_iff)
  then have "post_id p' = oid"
    using same_id by simp
  from find_replace_first [OF p this]
  have found: "find (\<lambda>p. post_id p = oid) (replace_first oid p' (posts st)) = Some p'" .
  have "title p' = Text t"
    using title' js_get_in [OF t] t by simp
  with run found show ?thesis
    by (simp add: called_def)
qed

theorem put_mismatch_still_updates_witness:
  "\<not> ids_match (params_id mismatched_request)
        [(''id'', JStr ''5b0000000000000000000002''), (''title'', JStr ''new title'')]
   \<and> title (posts example_store ! 0) = Text ''old title''
   \<and> fst (put_posts_id example_env example_store mismatched_request None) =
        Some \<lparr>status = 400,
               payload = error ''Request path id and request body id values must match''\<rparr>
   \<and> (\<exists>p'. find (\<lambda>p. post_id p = ''5b0000000000000000000001'')
               (posts (snd (put_posts_id example_env example_store mismatched_request None))) = Some p'
          \<and> title p' = Text ''new title'')"
proof -
  have b: "body mismatched_request =
      Some [(''id'', JStr ''5b0000000000000000000002''), (''title'', JStr ''new title'')]"
    by (simp add: mismatched_request_def request_of_def)
  have differ: "\<not> ids_match (params_id mismatched_request)
      [(''id'', JStr ''5b0000000000000000000002''), (''title'', JStr ''new title'')]"
    by (simp add: mismatched_request_def request_of_def ids_match_def js_get_def)
  have oid: "cast_ObjectId (params_id mismatched_request) = Inr ''5b0000000000000000000001''"
    by (simp add: mismatched_request_def request_of_def cast_example_post_id)
  have p: "find (\<lambda>p. post_id p = ''5b0000000000000000000001'') (posts example_store)
      = Some example_post"
    by (simp add: example_store_def example_post_def)
  have sets: "cast_update example_env (build_updated
      [(''id'', JStr ''5b0000000000000000000002''), (''title'', JStr ''new title'')])
      = Inr [Set_title (Text ''new title'')]"
    by (simp add: build_updated_explicit js_in_def js_get_def cast_setter_def)
  have t: "js_get [(''id'', JStr ''5b0000000000000000000002''), (''title'', JStr ''new title'')]
      ''title'' = JStr ''new title''"
    by (simp add: js_get_def)
  have old: "title (posts example_store ! 0) = Text ''old title''"
    by (simp add: example_store_def example_post_def)
  from put_mismatch_still_updates [OF b differ oid p sets t] differ old
  show ?thesis by auto
qed

section \<open>The public representation of a post\<close>

text \<open>
  C10. When \<open>author.firstName\<close> or \<open>author.lastName\<close> of a post is absent, the author
  string of the public representation contains the text \<open>undefined\<close> (and so is not
  empty); when both are absent it is \<open>undefined undefined\<close>.
\<close>

theorem authorName_absent_names:
  assumes "firstName (author p) = Absent \<or> lastName (author p) = Absent"
  shows "\<exists>repr. BlogPost_apiRepr p = JObj repr \<and> js_get repr ''author'' = JStr (authorName p)
           \<and> sublist ''undefined'' (authorName p) \<and> authorName p \<noteq> []
           \<and> (firstName (author p) = Absent \<and> lastName (author p) = Absent
                \<longrightarrow> authorName p = ''undefined undefined'')"
proof -
  have repr: "js_get [(''id'', JStr (post_id p)), (''author'', JStr (authorName p)),
      (''content'', field_value (content p)), (''title'', field_value (title p)),
      (''created'',
        (case created p of None \<Rightarrow> JNull | Some time \<Rightarrow> JNum (show_int time)))] ''author'' = JStr (authorName p)"
    by (simp add: js_get_def)
  have sub: "sublist ''undefined'' (authorName p)"
  proof -
    from assms consider "firstName (author p) = Absent" | "lastName (author p) = Absent"
      by blast
    then show ?thesis
    proof cases
      case 1
      have "authorName p = trim ([] @ ''undefined'' @ ('' '' @ field_String (lastName (author p))))"
        by (simp add: authorName_def 1)
      then show ?thesis by (simp only: trim_contains_undefined)
    next
      case 2
      have "authorName p = trim ((field_String (firstName (author p)) @ '' '') @ ''undefined'' @ [])"
        by (simp add: authorName_def 2)
      then show ?thesis by (simp only: trim_contains_undefined)
    qed
  qed
  then have ne: "authorName p \<noteq> []"
    by (auto simp: sublist_def)
  have both: "firstName (author p) = Absent \<and> lastName (author p) = Absent
        \<longrightarrow> authorName p = ''undefined undefined''"
    by (auto simp: authorName_def trim_undefined_undefined)
  show ?thesis
    unfolding BlogPost_apiRepr_def using repr sub ne both by blast
qed

theorem authorName_absent_names_witness:
  "(firstName (author (example_post\<lparr>author := \<lparr>firstName = Text ''Ann'', lastName = Absent\<rparr>\<rparr>)) = Absent
     \<or> lastName (author (example_post\<lparr>author := \<lparr>firstName = Text ''Ann'', lastName = Absent\<rparr>\<rparr>)) = Absent)
   \<and> sublist ''undefined''
        (authorName (example_post\<lparr>author := \<lparr>firstName = Text ''Ann'', lastName = Absent\<rparr>\<rparr>))
   \<and> authorName (example_post\<lparr>author := \<lparr>firstName = Text ''Ann'', lastName = Absent\<rparr>\<rparr>)
        = ''Ann undefined''"
proof -
  have absent: "firstName (author (example_post\<lparr>author := \<lparr>firstName = Text ''Ann'', lastName = Absent\<rparr>\<rparr>)) = Absent
     \<or> lastName (author (example_post\<lparr>author := \<lparr>firstName = Text ''Ann'', lastName = Absent\<rparr>\<rparr>)) = Absent"
    by simp
  have "trim ''Ann undefined'' = ''Ann undefined''"
    by (rule trim_unchanged) (simp_all add: white_space_def)
  then have name: "authorName (example_post\<lparr>author := \<lparr>firstName = Text ''Ann'', lastName = Absent\<rparr>\<rparr>)
      = ''Ann undefined''"
    by (simp add: authorName_def)
  from authorName_absent_names [OF absent] absent name show ?thesis
    by blast
qed

end
